theory Spec2Isabelle
  imports Complex_Main
begin

section \<open>JavaScript values\<close>

text \<open>
  The relay (\<^verbatim>\<open>server.js\<close>) and the browser client (\<^verbatim>\<open>public/app.js\<close>) both handle
  values that come out of a JSON reader and are typed by nothing. They are modelled by
  one datatype of JavaScript values. A number is an IEEE double, given by its exact
  value: the two infinities, the negative zero and not-a-number are constructors of
  their own, and \<open>Fin 0\<close> is the positive zero. A string is a list of 8-bit
  characters (code units 0 to 255). An object is the list of its own properties in
  insertion order, and a lookup takes the first entry under a name.
\<close>

datatype jsnum = NaN | PosInf | NegInf | NegZero | Fin rat

datatype jsval =
    JUndefined
  | JNull
  | JBool bool
  | JNum jsnum
  | JStr string
  | JArr "jsval list"
  | JObj "(string \<times> jsval) list"

text \<open>\<open>Boolean(v)\<close>, the test of \<open>!v\<close>, \<open>a || b\<close> and \<open>if (v)\<close>.\<close>

fun truthy :: "jsval \<Rightarrow> bool" where
  "truthy JUndefined = False"
| "truthy JNull = False"
| "truthy (JBool b) = b"
| "truthy (JNum n) = (n \<noteq> NaN \<and> n \<noteq> NegZero \<and> n \<noteq> Fin 0)"
| "truthy (JStr s) = (s \<noteq> [])"
| "truthy (JArr xs) = True"
| "truthy (JObj kvs) = True"

text \<open>\<open>typeof v\<close>: null and arrays are objects.\<close>

fun typeof :: "jsval \<Rightarrow> string" where
  "typeof JUndefined = ''undefined''"
| "typeof JNull = ''object''"
| "typeof (JBool b) = ''boolean''"
| "typeof (JNum n) = ''number''"
| "typeof (JStr s) = ''string''"
| "typeof (JArr xs) = ''object''"
| "typeof (JObj kvs) = ''object''"

definition nullish :: "jsval \<Rightarrow> bool" where
  "nullish v = (v = JUndefined \<or> v = JNull)"

text \<open>
  \<open>v.k\<close> for the property names the two programs read (\<open>language\<close>, \<open>code\<close>,
  \<open>candidates\<close>, \<open>content\<close>, \<open>parts\<close>, \<open>text\<close>, \<open>hasError\<close>, \<open>error\<close>,
  \<open>correctedCode\<close>, \<open>type\<close>, \<open>reason\<close>, \<open>line\<close>, \<open>details\<close>, \<open>isRateLimit\<close>):
  none of them is inherited from a built-in prototype, so a primitive and an array
  give \<open>undefined\<close>. Every plain access of the programs is guarded against null and
  undefined, where JavaScript would throw; \<open>opt_prop\<close> is the optional chain \<open>v?.k\<close>.
\<close>

fun get_prop :: "jsval \<Rightarrow> string \<Rightarrow> jsval" where
  "get_prop (JObj kvs) k = (case map_of kvs k of Some v \<Rightarrow> v | None \<Rightarrow> JUndefined)"
| "get_prop v k = JUndefined"

definition opt_prop :: "jsval \<Rightarrow> string \<Rightarrow> jsval" where
  "opt_prop v k = (if nullish v then JUndefined else get_prop v k)"

text \<open>
  \<open>v[0]\<close> and the optional chain \<open>v?.[0]\<close>: the first element of an array, the
  property named \<open>0\<close> of an object, the first code unit of a string.
\<close>

fun elem0 :: "jsval \<Rightarrow> jsval" where
  "elem0 (JArr xs) = (case xs of [] \<Rightarrow> JUndefined | x # rest \<Rightarrow> x)"
| "elem0 (JObj kvs) = get_prop (JObj kvs) ''0''"
| "elem0 (JStr s) = (case s of [] \<Rightarrow> JUndefined | c # rest \<Rightarrow> JStr [c])"
| "elem0 v = JUndefined"

definition opt_elem0 :: "jsval \<Rightarrow> jsval" where
  "opt_elem0 v = (if nullish v then JUndefined else elem0 v)"

text \<open>\<open>a ?? b\<close> and \<open>a || b\<close>.\<close>

definition coalesce :: "jsval \<Rightarrow> jsval \<Rightarrow> jsval" where
  "coalesce a b = (if nullish a then b else a)"

definition js_or :: "jsval \<Rightarrow> jsval \<Rightarrow> jsval" where
  "js_or a b = (if truthy a then a else b)"

text \<open>The text of a string value; it is applied only where \<open>typeof\<close> has said string.\<close>

fun str_of :: "jsval \<Rightarrow> string" where
  "str_of (JStr s) = s"
| "str_of v = []"

text \<open>
  A thrown value: an \<open>Error\<close> instance with its message, or anything else with the
  text \<open>String(e)\<close> gives it. \<open>exn_text\<close> is
  \<^verbatim>\<open>e instanceof Error ? e.message : String(e)\<close>.
\<close>

datatype exn = ErrorExn string | OtherExn string

fun exn_text :: "exn \<Rightarrow> string" where
  "exn_text (ErrorExn m) = m"
| "exn_text (OtherExn s) = s"

text \<open>
  What the JavaScript runtime supplies and the repository does not define:
  \<open>JSON.parse\<close> (\<open>Inl\<close> carries the message of the \<open>SyntaxError\<close> it throws),
  \<open>JSON.stringify\<close>, the decimal text of a number, the string conversion of an array
  or an object (it calls their \<open>toString\<close>, and throws a \<open>TypeError\<close> when that gives
  no primitive, as for an object read from JSON with a property of that name), and the
  messages of the \<open>TypeError\<close>s thrown by calling what is not a function (from the
  text of the callee) and by destructuring null or undefined. They are parameters of
  the model.
\<close>

record runtime =
  JSON_parse :: "string \<Rightarrow> string + jsval"
  JSON_stringify :: "jsval \<Rightarrow> string"
  number_to_string :: "jsnum \<Rightarrow> string"
  object_to_string :: "jsval \<Rightarrow> exn + string"
  not_a_function :: "string \<Rightarrow> string"
  cannot_destructure :: "jsval \<Rightarrow> string"

text \<open>
  The string conversion of a value, as a template literal and the setter of
  \<open>textContent\<close> apply it to what is neither null nor undefined: it cannot fail on a
  primitive.
\<close>

fun to_string :: "runtime \<Rightarrow> jsval \<Rightarrow> exn + string" where
  "to_string rt JUndefined = Inr ''undefined''"
| "to_string rt JNull = Inr ''null''"
| "to_string rt (JBool b) = Inr (if b then ''true'' else ''false'')"
| "to_string rt (JNum n) = Inr (number_to_string rt n)"
| "to_string rt (JStr s) = Inr s"
| "to_string rt (JArr xs) = object_to_string rt (JArr xs)"
| "to_string rt (JObj kvs) = object_to_string rt (JObj kvs)"

fun primitive :: "jsval \<Rightarrow> bool" where
  "primitive (JArr xs) = False"
| "primitive (JObj kvs) = False"
| "primitive v = True"

text \<open>
  A settled \<open>fetch\<close>: the reply as received, its status line and its body. \<open>ok\<close> and
  \<open>status\<close> are the two fields the programs read. \<open>response.text()\<close> is the body and
  \<open>response.json()\<close> is \<open>JSON.parse\<close> of the body, which throws on a body that is not
  JSON.
\<close>

record fetch_response =
  ok :: bool
  status :: nat
  statusText :: string
  body_text :: string

record fetch_request =
  url :: string
  http_method :: string
  headers :: "(string \<times> string) list"
  timeout :: "nat option"
  req_body :: string

definition response_json :: "runtime \<Rightarrow> fetch_response \<Rightarrow> exn + jsval" where
  "response_json rt r =
     (case JSON_parse rt (body_text r) of Inl m \<Rightarrow> Inl (ErrorExn m) | Inr v \<Rightarrow> Inr v)"

section \<open>The relay: \<^verbatim>\<open>server.js\<close>\<close>

record message =
  role :: string
  content :: string

definition buildPrompt :: "string \<Rightarrow> string \<Rightarrow> message list" where
  "buildPrompt language code =
     [\<lparr>role = ''user'',
       content =
         ''You are an expert code analyzer. Your job: detect whether the provided code has an error, explain it, and provide corrected code. You must respond with ONLY valid JSON.\<newline>\<newline>Language: ''
         @ language
         @ ''\<newline>\<newline>Code:\<newline>\<newline>''
         @ code
         @ ''\<newline>\<newline>Return ONLY JSON in this exact shape:\<newline>{\<newline>  \"hasError\": boolean,\<newline>  \"error\": {\<newline>    \"type\": string,\<newline>    \"reason\": string,\<newline>    \"line\": number|null\<newline>  }|null,\<newline>  \"correctedCode\": string|null\<newline>}\<newline>\<newline>Rules:\<newline>- If there is no error, set hasError=false, error=null, correctedCode=null.\<newline>- If there is an error, set hasError=true and fill: type (e.g., SyntaxError/CompilationError/TypeError/etc), reason (clear explanation), and line (specific line number if possible).\<newline>- Provide correctedCode as the corrected full code.\<newline>- Be strict: respond with JSON only, no markdown, no extra keys.\<newline>- If multiple issues exist, report the most critical one and still provide a corrected version of the full code.''\<rparr>]"

text \<open>
  What the handler sends: \<open>res.status(c).json(v)\<close>, and \<open>res.json(v)\<close> with the
  framework's default status 200. The body is the value handed to \<open>res.json\<close>.
\<close>

record http_response =
  res_status :: nat
  res_body :: jsval

definition status_json :: "nat \<Rightarrow> jsval \<Rightarrow> http_response" where
  "status_json c v = \<lparr>res_status = c, res_body = v\<rparr>"

definition json :: "jsval \<Rightarrow> http_response" where
  "json v = status_json 200 v"

text \<open>
  Lines 94 to 114 of the handler: the normalization of the value \<open>JSON.parse\<close> gave
  for the model's text.
\<close>

definition normalize :: "jsval \<Rightarrow> http_response" where
  "normalize parsed =
     (let hasError = truthy (opt_prop parsed ''hasError'');
          error = coalesce (opt_prop parsed ''error'') JNull;
          correctedCode = coalesce (opt_prop parsed ''correctedCode'') JNull
      in
        if \<not> hasError then
          json (JObj [(''hasError'', JBool False), (''error'', JNull), (''correctedCode'', JNull)])
        else if \<not> truthy error \<or> typeof error \<noteq> ''object'' then
          json (JObj [(''hasError'', JBool True),
                      (''error'', JObj [(''type'', JStr ''UnknownError''),
                                        (''reason'', JStr ''Unknown''),
                                        (''line'', JNull)]),
                      (''correctedCode'', correctedCode)])
        else
          json (JObj [(''hasError'', JBool True),
                      (''error'',
                         JObj [(''type'',
                                  if typeof (get_prop error ''type'') = ''string''
                                  then get_prop error ''type'' else JStr ''UnknownError''),
                               (''reason'',
                                  if typeof (get_prop error ''reason'') = ''string''
                                  then get_prop error ''reason'' else JStr ''Unknown''),
                               (''line'',
                                  if typeof (get_prop error ''line'') = ''number''
                                  then get_prop error ''line'' else JNull)]),
                      (''correctedCode'',
                         if typeof correctedCode = ''string'' then correctedCode else JNull)]))"

text \<open>
  Lines 56 to 114: what the handler answers once \<open>fetch\<close> has returned a reply.
  \<open>Inl\<close> is an exception on its way to the handler's \<open>catch\<close>. The console output
  of these lines is not modelled.
\<close>

definition upstream_content :: "jsval \<Rightarrow> jsval" where
  "upstream_content data =
     opt_prop (opt_elem0 (opt_prop (opt_prop (opt_elem0 (opt_prop data ''candidates''))
       ''content'') ''parts'')) ''text''"

definition relay_reply :: "runtime \<Rightarrow> fetch_response \<Rightarrow> exn + http_response" where
  "relay_reply rt response =
     (if \<not> ok response then
        (let text = body_text response in
         if status response = 429 then
           Inr (status_json 429
             (JObj [(''error'', JStr ''Rate limit exceeded. Please wait a moment before trying again.''),
                    (''details'', JStr ''Free tier limit: 20 requests per day. Try again later or upgrade your plan.''),
                    (''isRateLimit'', JBool True)]))
         else
           Inr (status_json 502
             (JObj [(''error'', JStr ''Gemini request failed''), (''details'', JStr text)])))
      else
        (case response_json rt response of
           Inl e \<Rightarrow> Inl e
         | Inr data \<Rightarrow>
            (let content = upstream_content data in
             if \<not> truthy content \<or> typeof content \<noteq> ''string'' then
               Inr (status_json 502
                 (JObj [(''error'', JStr ''Gemini returned empty response''),
                        (''details'', JStr (JSON_stringify rt data))]))
             else
               (case JSON_parse rt (str_of content) of
                  Inl e \<Rightarrow>
                    Inr (status_json 502
                      (JObj [(''error'', JStr ''Gemini returned non-JSON''),
                             (''details'', content)]))
                | Inr parsed \<Rightarrow> Inr (normalize parsed)))))"

text \<open>
  The handler of \<open>POST /api/analyze\<close>. Its inputs are the request body as the
  framework's JSON middleware left it (\<open>undefined\<close> when there is none), the process
  environment, and \<open>fetch\<close> as a function from the request to its outcome (\<open>Inl\<close>: the
  call threw). It returns the response sent and the list of calls made to the
  external model. Every exception raised inside the handler's \<open>try\<close> ends in its
  \<open>catch\<close>, which answers 500. A variable of the environment is a string or is not
  set (\<open>None\<close>); \<open>!apiKey\<close> holds of one that is not set and of the empty string.
\<close>

record outcome =
  sent :: http_response
  fetched :: "fetch_request list"

definition server_error :: "exn \<Rightarrow> http_response" where
  "server_error e =
     status_json 500 (JObj [(''error'', JStr ''Server error''), (''details'', JStr (exn_text e))])"

definition gemini_request :: "runtime \<Rightarrow> string \<Rightarrow> string \<Rightarrow> string \<Rightarrow> string \<Rightarrow> fetch_request" where
  "gemini_request rt model apiKey language code =
     \<lparr>url = ''https://generativelanguage.googleapis.com/v1/models/'' @ model
              @ '':generateContent?key='' @ apiKey,
      http_method = ''POST'',
      headers = [(''Content-Type'', ''application/json'')],
      timeout = Some 30000,
      req_body = JSON_stringify rt
        (JObj [(''contents'',
                  JArr (map (\<lambda>msg. JObj [(''role'', JStr (if role msg = ''system'' then ''user'' else role msg)),
                                         (''parts'', JArr [JObj [(''text'', JStr (content msg))]])])
                            (buildPrompt language code))),
               (''generationConfig'', JObj [(''temperature'', JNum (Fin 0))])])\<rparr>"

text \<open>
  \<^verbatim>\<open>const { language, code } = v\<close>: it throws on null and undefined, and reads the
  two properties of anything else.
\<close>

definition destructure :: "runtime \<Rightarrow> jsval \<Rightarrow> exn + jsval \<times> jsval" where
  "destructure rt v =
     (if nullish v then Inl (ErrorExn (cannot_destructure rt v))
      else Inr (get_prop v ''language'', get_prop v ''code''))"

definition analyze_handler ::
  "runtime \<Rightarrow> (string \<Rightarrow> string option) \<Rightarrow> (fetch_request \<Rightarrow> exn + fetch_response)
     \<Rightarrow> jsval \<Rightarrow> outcome" where
  "analyze_handler rt env fetch body =
     (case destructure rt (coalesce body (JObj [])) of
        Inl e \<Rightarrow> \<lparr>sent = server_error e, fetched = []\<rparr>
      | Inr (language, code) \<Rightarrow>
          if \<not> truthy language \<or> typeof language \<noteq> ''string'' then
            \<lparr>sent = status_json 400 (JObj [(''error'', JStr ''Missing language'')]), fetched = []\<rparr>
          else if \<not> truthy code \<or> typeof code \<noteq> ''string'' then
            \<lparr>sent = status_json 400 (JObj [(''error'', JStr ''Missing code'')]), fetched = []\<rparr>
          else
            (case env ''GEMINI_API_KEY'' of
               None \<Rightarrow>
                 \<lparr>sent = status_json 500
                           (JObj [(''error'', JStr ''Server missing GEMINI_API_KEY'')]),
                  fetched = []\<rparr>
             | Some apiKey \<Rightarrow>
                 if apiKey = [] then
                   \<lparr>sent = status_json 500
                             (JObj [(''error'', JStr ''Server missing GEMINI_API_KEY'')]),
                    fetched = []\<rparr>
                 else
                   (let model = (case env ''GEMINI_MODEL'' of
                                   None \<Rightarrow> ''gemini-1.5-flash''
                                 | Some m \<Rightarrow> if m = [] then ''gemini-1.5-flash'' else m);
                        request = gemini_request rt model apiKey (str_of language) (str_of code)
                    in
                      (case fetch request of
                         Inl e \<Rightarrow> \<lparr>sent = server_error e, fetched = [request]\<rparr>
                       | Inr response \<Rightarrow>
                          (case relay_reply rt response of
                             Inl e \<Rightarrow> \<lparr>sent = server_error e, fetched = [request]\<rparr>
                           | Inr r \<Rightarrow> \<lparr>sent = r, fetched = [request]\<rparr>)))))"

section \<open>The client: \<^verbatim>\<open>public/app.js\<close>\<close>

text \<open>
  \<open>s.replaceAll(p, r)\<close> for a pattern of one character, which is what all five calls
  of \<open>escapeHtml\<close> pass; none of their replacement texts holds a dollar sign, so each
  is inserted as it stands.
\<close>

definition replaceAll :: "char \<Rightarrow> string \<Rightarrow> string \<Rightarrow> string" where
  "replaceAll p r s = concat (map (\<lambda>c. if c = p then r else [c]) s)"

definition escapeHtml :: "string \<Rightarrow> string" where
  "escapeHtml s =
     replaceAll (CHR 0x27) ''&#039;''
       (replaceAll (CHR 0x22) ''&quot;''
         (replaceAll CHR ''>'' ''&gt;''
           (replaceAll CHR ''<'' ''&lt;''
             (replaceAll CHR ''&'' ''&amp;'' s))))"

text \<open>
  The call \<open>escapeHtml(v)\<close> on a value of any type: what is not a string has no
  \<open>replaceAll\<close>, and the call throws a \<open>TypeError\<close>.
\<close>

definition escapeHtml_call :: "runtime \<Rightarrow> jsval \<Rightarrow> exn + string" where
  "escapeHtml_call rt v =
     (case v of
        JStr s \<Rightarrow> Inr (escapeHtml s)
      | _ \<Rightarrow> Inl (ErrorExn (not_a_function rt ''s.replaceAll'')))"

text \<open>
  The entity of a character, in the words of the property of \<open>escapeHtml\<close>: each of
  the five special characters has an entity, and any other character stands for
  itself. \<open>entities\<close> are the five entity texts.
\<close>

definition html_entity :: "char \<Rightarrow> string" where
  "html_entity c =
     (if c = CHR ''&'' then ''&amp;''
      else if c = CHR ''<'' then ''&lt;''
      else if c = CHR ''>'' then ''&gt;''
      else if c = CHR 0x22 then ''&quot;''
      else if c = CHR 0x27 then ''&#039;''
      else [c])"

definition entities :: "string list" where
  "entities = [''&amp;'', ''&lt;'', ''&gt;'', ''&quot;'', ''&#039;'']"

text \<open>
  \<open>s.trim()\<close>: the white space and line terminators of JavaScript among the code
  units 0 to 255 are the tab, the line feed, the vertical tab, the form feed, the
  carriage return, the space and the no-break space.
\<close>

definition js_space :: "char \<Rightarrow> bool" where
  "js_space c =
     (c = CHR 0x09 \<or> c = CHR 0x0A \<or> c = CHR 0x0B \<or> c = CHR 0x0C \<or> c = CHR 0x0D
      \<or> c = CHR 0x20 \<or> c = CHR 0xA0)"

definition trim :: "string \<Rightarrow> string" where
  "trim s = rev (dropWhile js_space (rev (dropWhile js_space s)))"

text \<open>
  The page, as far as \<open>analyze\<close> and the functions it calls read and write it: one
  field for each property of a DOM element or module variable they touch. A
  \<open>hidden\<close> field says that the element's class list holds \<open>hidden\<close>.
  \<open>timers\<close> are the delays of the pending \<open>setTimeout\<close> calls and
  \<open>speech_cancels\<close> counts the calls of \<open>speechSynthesis.cancel()\<close>.
\<close>

record ui =
  currentLanguage :: string
  code_value :: string
  analyze_disabled :: bool
  status_text :: string
  status_show :: bool
  timers :: "nat list"
  results_html :: string
  error_details_hidden :: bool
  corrected_code_hidden :: bool
  error_type_text :: string
  error_reason_text :: string
  error_line_text :: string
  fixed_content_text :: string
  isSpeaking :: bool
  speak_btn_speaking :: bool
  speak_btn_html :: string
  speech_cancels :: nat

text \<open>The markup the client writes into the results element, from the source's templates.\<close>

definition no_error_html :: "string" where
  "no_error_html =
       ''\<newline>''
     @ ''    <div class=\"placeholder\">\<newline>''
     @ ''      <div class=\"placeholder-icon\" style=\"background: linear-gradient(135deg, #10b981, #22c55e);\">\<newline>''
     @ ''        <i class=\"fas fa-check\"></i>\<newline>''
     @ ''      </div>\<newline>''
     @ ''      <h3>No Errors Found!</h3>\<newline>''
     @ ''      <p>Your code looks great! No errors were detected.</p>\<newline>''
     @ ''    </div>\<newline>''
     @ ''  ''"

definition rate_limit_html :: "string \<Rightarrow> string \<Rightarrow> string" where
  "rate_limit_html msg details =
       ''\<newline>''
     @ ''          <div class=\"placeholder\">\<newline>''
     @ ''            <div class=\"placeholder-icon\" style=\"background: linear-gradient(135deg, #f59e0b, #d97706);\">\<newline>''
     @ ''              <i class=\"fas fa-clock\"></i>\<newline>''
     @ ''            </div>\<newline>''
     @ ''            <h3>Rate Limit Exceeded</h3>\<newline>''
     @ ''            <p>''
     @ msg
     @ ''</p>\<newline>''
     @ ''            <p><strong>Details:</strong> ''
     @ details
     @ ''</p>\<newline>''
     @ ''          </div>\<newline>''
     @ ''        ''"

definition analysis_failed_html :: "string \<Rightarrow> string" where
  "analysis_failed_html msg =
       ''\<newline>''
     @ ''          <div class=\"placeholder\">\<newline>''
     @ ''            <div class=\"placeholder-icon\" style=\"background: linear-gradient(135deg, #ef4444, #dc2626);\">\<newline>''
     @ ''              <i class=\"fas fa-exclamation-triangle\"></i>\<newline>''
     @ ''            </div>\<newline>''
     @ ''            <h3>Analysis Failed</h3>\<newline>''
     @ ''            <p>''
     @ msg
     @ ''</p>\<newline>''
     @ ''          </div>\<newline>''
     @ ''        ''"

definition unexpected_html :: "string" where
  "unexpected_html =
       ''\<newline>''
     @ ''        <div class=\"placeholder\">\<newline>''
     @ ''          <div class=\"placeholder-icon\" style=\"background: linear-gradient(135deg, #f59e0b, #d97706);\">\<newline>''
     @ ''            <i class=\"fas fa-question-circle\"></i>\<newline>''
     @ ''          </div>\<newline>''
     @ ''          <h3>Unexpected Response</h3>\<newline>''
     @ ''          <p>Received an unexpected response from the server.</p>\<newline>''
     @ ''        </div>\<newline>''
     @ ''      ''"

definition errors_detected_html :: "string" where
  "errors_detected_html =
       ''\<newline>''
     @ ''      <div class=\"placeholder\">\<newline>''
     @ ''        <div class=\"placeholder-icon\" style=\"background: linear-gradient(135deg, #ef4444, #dc2626);\">\<newline>''
     @ ''          <i class=\"fas fa-bug\"></i>\<newline>''
     @ ''        </div>\<newline>''
     @ ''        <h3>Errors Detected!</h3>\<newline>''
     @ ''        <p>We found issues in your code. See the details below.</p>\<newline>''
     @ ''      </div>\<newline>''
     @ ''    ''"

definition connection_error_html :: "string \<Rightarrow> string" where
  "connection_error_html msg =
       ''\<newline>''
     @ ''      <div class=\"placeholder\">\<newline>''
     @ ''        <div class=\"placeholder-icon\" style=\"background: linear-gradient(135deg, #ef4444, #dc2626);\">\<newline>''
     @ ''          <i class=\"fas fa-wifi\"></i>\<newline>''
     @ ''        </div>\<newline>''
     @ ''        <h3>Connection Error</h3>\<newline>''
     @ ''        <p>''
     @ msg
     @ ''</p>\<newline>''
     @ ''      </div>\<newline>''
     @ ''    ''"

text \<open>\<open>setStatus(text, duration = 3000)\<close>.\<close>

definition setStatus :: "string \<Rightarrow> nat \<Rightarrow> ui \<Rightarrow> ui" where
  "setStatus txt duration u =
     (let u1 = u\<lparr>status_text := txt, status_show := True\<rparr>
      in if txt \<noteq> [] then u1\<lparr>timers := timers u1 @ [duration]\<rparr> else u1)"

text \<open>
  \<open>showErrorDetails(error)\<close>, called with a truthy value. Each of its three
  assignments converts a value to a string, which can throw; it returns the page as the
  statements before the throw left it, and the exception if there was one.
\<close>

definition showErrorDetails :: "runtime \<Rightarrow> jsval \<Rightarrow> ui \<Rightarrow> ui \<times> exn option" where
  "showErrorDetails rt error u =
     (let type = get_prop error ''type'';
          reason = get_prop error ''reason'';
          line = get_prop error ''line''
      in
        case to_string rt (js_or type (JStr ''UnknownError'')) of
          Inl e \<Rightarrow> (u, Some e)
        | Inr t \<Rightarrow>
           (let u1 = u\<lparr>error_type_text := t\<rparr> in
            case to_string rt (js_or reason (JStr ''Unknown'')) of
              Inl e \<Rightarrow> (u1, Some e)
            | Inr r \<Rightarrow>
               (let u2 = u1\<lparr>error_reason_text := r\<rparr> in
                case (if line = JNull \<or> line = JUndefined then Inr ''Unknown''
                      else (case to_string rt line of
                              Inl e \<Rightarrow> Inl e
                            | Inr l \<Rightarrow> Inr (''Line '' @ l))) of
                  Inl e \<Rightarrow> (u2, Some e)
                | Inr l \<Rightarrow>
                    (u2\<lparr>error_line_text := l, error_details_hidden := False\<rparr>, None))))"

text \<open>
  \<open>showCorrectedCode(code)\<close>. A truthy value that is not a string has no \<open>trim\<close>:
  the call throws, and the page is as it was.
\<close>

definition showCorrectedCode :: "runtime \<Rightarrow> jsval \<Rightarrow> ui \<Rightarrow> exn + ui" where
  "showCorrectedCode rt code u =
     (if \<not> truthy code then Inr (u\<lparr>corrected_code_hidden := True\<rparr>)
      else
        (case code of
           JStr s \<Rightarrow>
             if trim s \<noteq> [] then
               Inr (u\<lparr>fixed_content_text := s, corrected_code_hidden := False\<rparr>)
             else Inr (u\<lparr>corrected_code_hidden := True\<rparr>)
         | _ \<Rightarrow> Inl (ErrorExn (not_a_function rt ''code.trim''))))"

definition showNoError :: "ui \<Rightarrow> ui" where
  "showNoError u =
     u\<lparr>results_html := no_error_html,
       error_details_hidden := True,
       corrected_code_hidden := True\<rparr>"

definition stopSpeaking :: "ui \<Rightarrow> ui" where
  "stopSpeaking u =
     u\<lparr>speech_cancels := Suc (speech_cancels u),
       isSpeaking := False,
       speak_btn_speaking := False,
       speak_btn_html := ''<i class=\"fas fa-volume-up\"></i> Listen to Explanation''\<rparr>"

text \<open>
  \<open>analyze\<close> runs in two steps around its \<open>await\<close>. \<open>analyze_begin\<close> is the part up
  to the call of \<open>fetch\<close>: it returns the page and the request issued, if any.
\<close>

definition analyze_begin :: "runtime \<Rightarrow> ui \<Rightarrow> ui \<times> fetch_request option" where
  "analyze_begin rt u =
     (let code = trim (code_value u) in
      if code = [] then (setStatus ''Please write or paste some code first.'' 3000 u, None)
      else
        (setStatus ''Analyzing your code...'' 3000 (u\<lparr>analyze_disabled := True\<rparr>),
         Some \<lparr>url = ''/api/analyze'',
               http_method = ''POST'',
               headers = [(''Content-Type'', ''application/json'')],
               timeout = None,
               req_body = JSON_stringify rt
                 (JObj [(''language'', JStr (currentLanguage u)), (''code'', JStr code)])\<rparr>))"

text \<open>
  The body of the \<open>try\<close> from the \<open>await\<close> on, given how \<open>fetch\<close> settled (\<open>Inl\<close>: it
  rejected). It returns the page as the body left it, and the exception if the body
  threw: the statements before a throw have taken effect. \<open>resp.json()\<close> that rejects
  is caught and gives null.
\<close>

definition analyze_try :: "runtime \<Rightarrow> exn + fetch_response \<Rightarrow> ui \<Rightarrow> ui \<times> exn option" where
  "analyze_try rt settled u =
     (case settled of
        Inl e \<Rightarrow> (u, Some e)
      | Inr resp \<Rightarrow>
         (let data = (case response_json rt resp of Inl e \<Rightarrow> JNull | Inr v \<Rightarrow> v) in
          if \<not> ok resp then
            (let msg = js_or (opt_prop data ''error'') (JStr ''Request failed'');
                 details = js_or (opt_prop data ''details'') (JStr []);
                 isRateLimit = js_or (opt_prop data ''isRateLimit'') (JBool False)
             in
               if truthy isRateLimit then
                 (case escapeHtml_call rt msg of
                    Inl e \<Rightarrow> (u, Some e)
                  | Inr m \<Rightarrow>
                     (case escapeHtml_call rt details of
                        Inl e \<Rightarrow> (u, Some e)
                      | Inr d \<Rightarrow>
                         (u\<lparr>results_html := rate_limit_html m d,
                            error_details_hidden := True,
                            corrected_code_hidden := True\<rparr>, None)))
               else
                 (case escapeHtml_call rt msg of
                    Inl e \<Rightarrow> (u, Some e)
                  | Inr m \<Rightarrow>
                     (u\<lparr>results_html := analysis_failed_html m,
                        error_details_hidden := True,
                        corrected_code_hidden := True\<rparr>, None)))
          else if \<not> truthy data \<or> typeof (get_prop data ''hasError'') \<noteq> ''boolean'' then
            (u\<lparr>results_html := unexpected_html,
               error_details_hidden := True,
               corrected_code_hidden := True\<rparr>, None)
          else if \<not> truthy (get_prop data ''hasError'') then
            (setStatus ''Analysis complete - no errors found!'' 3000 (showNoError u), None)
          else
            (let u1 = u\<lparr>results_html := errors_detected_html\<rparr> in
             case showErrorDetails rt
                    (js_or (get_prop data ''error'')
                       (JObj [(''type'', JStr ''UnknownError''),
                              (''reason'', JStr ''Unknown''),
                              (''line'', JNull)]))
                    u1 of
               (u2, Some e) \<Rightarrow> (u2, Some e)
             | (u2, None) \<Rightarrow>
                (case showCorrectedCode rt (get_prop data ''correctedCode'') u2 of
                   Inl e \<Rightarrow> (u2, Some e)
                 | Inr u3 \<Rightarrow>
                    (setStatus ''Analysis complete - errors found and fixes provided!'' 3000 u3,
                     None)))))"

text \<open>
  The whole of \<open>analyze\<close> after the \<open>await\<close>: the \<open>try\<close> body, the \<open>catch\<close> block when
  the body threw, and the \<open>finally\<close> block in every case.
\<close>

definition analyze_settle :: "runtime \<Rightarrow> exn + fetch_response \<Rightarrow> ui \<Rightarrow> ui" where
  "analyze_settle rt settled u =
     (let (u1, thrown) = analyze_try rt settled u;
          u2 = (case thrown of
                  None \<Rightarrow> u1
                | Some e \<Rightarrow>
                    stopSpeaking
                      (u1\<lparr>results_html := connection_error_html (escapeHtml (exn_text e)),
                          error_details_hidden := True,
                          corrected_code_hidden := True\<rparr>))
      in u2\<lparr>analyze_disabled := False\<rparr>)"

definition analyze :: "runtime \<Rightarrow> (fetch_request \<Rightarrow> exn + fetch_response) \<Rightarrow> ui \<Rightarrow> ui" where
  "analyze rt fetch u =
     (case analyze_begin rt u of
        (u1, None) \<Rightarrow> u1
      | (u1, Some request) \<Rightarrow> analyze_settle rt (fetch request) u1)"

section \<open>Sample inputs\<close>

text \<open>
  Concrete inputs at which the theorems below are run. \<open>quoted t\<close> is the JSON string
  literal of a text without control characters, \<open>gemini_body t\<close> is the body of a
  reply of the external model whose first candidate carries the text \<open>t\<close>, and
  \<open>gemini_data t\<close> is the value of that body.
\<close>

definition quoted :: "string \<Rightarrow> string" where
  "quoted t =
     [CHR 0x22]
     @ concat (map (\<lambda>c. if c = CHR 0x22 \<or> c = CHR 0x5C then [CHR 0x5C, c] else [c]) t)
     @ [CHR 0x22]"

definition gemini_body :: "string \<Rightarrow> string" where
  "gemini_body t =
     ''{\"candidates\":[{\"content\":{\"parts\":[{\"text\":'' @ quoted t @ ''}]}}]}''"

definition gemini_data :: "string \<Rightarrow> jsval" where
  "gemini_data t =
     JObj [(''candidates'',
            JArr [JObj [(''content'', JObj [(''parts'', JArr [JObj [(''text'', JStr t)]])])]])]"

text \<open>Texts of the model, and bodies of the relay's own answers, with their values.\<close>

definition reply_clean :: string where
  "reply_clean = ''{\"hasError\":false,\"error\":{\"type\":\"x\"},\"correctedCode\":\"y\"}''"

definition reply_bare :: string where
  "reply_bare = ''{\"hasError\":true,\"correctedCode\":42}''"

definition reply_syntax :: string where
  "reply_syntax =
     ''{\"hasError\":1,\"error\":{\"type\":\"SyntaxError\",\"reason\":7,\"line\":1},\"correctedCode\":\"print(1)\"}''"

definition relay_error_body :: string where
  "relay_error_body =
     ''{\"hasError\":true,\"error\":{\"type\":\"SyntaxError\",\"reason\":\"Unknown\",\"line\":null},\"correctedCode\":\"print(1)\"}''"

definition relay_bare_body :: string where
  "relay_bare_body =
     ''{\"hasError\":true,\"error\":{\"type\":\"UnknownError\",\"reason\":\"Unknown\",\"line\":null},\"correctedCode\":42}''"

definition relay_limit_body :: string where
  "relay_limit_body =
     ''{\"error\":\"Rate <b>limit</b>\",\"details\":\"20 & more\",\"isRateLimit\":true}''"

definition json_table :: "(string \<times> jsval) list" where
  "json_table =
     [(reply_clean,
       JObj [(''hasError'', JBool False),
             (''error'', JObj [(''type'', JStr ''x'')]),
             (''correctedCode'', JStr ''y'')]),
      (reply_bare,
       JObj [(''hasError'', JBool True), (''correctedCode'', JNum (Fin 42))]),
      (reply_syntax,
       JObj [(''hasError'', JNum (Fin 1)),
             (''error'', JObj [(''type'', JStr ''SyntaxError''),
                               (''reason'', JNum (Fin 7)),
                               (''line'', JNum (Fin 1))]),
             (''correctedCode'', JStr ''print(1)'')]),
      (relay_error_body,
       JObj [(''hasError'', JBool True),
             (''error'', JObj [(''type'', JStr ''SyntaxError''),
                               (''reason'', JStr ''Unknown''),
                               (''line'', JNull)]),
             (''correctedCode'', JStr ''print(1)'')]),
      (relay_bare_body,
       JObj [(''hasError'', JBool True),
             (''error'', JObj [(''type'', JStr ''UnknownError''),
                               (''reason'', JStr ''Unknown''),
                               (''line'', JNull)]),
             (''correctedCode'', JNum (Fin 42))]),
      (relay_limit_body,
       JObj [(''error'', JStr ''Rate <b>limit</b>''),
             (''details'', JStr ''20 & more''),
             (''isRateLimit'', JBool True)])]"

text \<open>
  A runtime for the sample inputs. Its JSON reader gives the texts of the table their
  values, reads the body of a model reply that carries one of the listed texts (the
  empty text and a text that is not JSON among them), and rejects everything else, as
  \<open>JSON.parse\<close> rejects the empty text and \<open>not json\<close>. Its serializer covers the
  values of the table and its conversions the numbers and objects of the samples.
\<close>

definition sample_bodies :: "(string \<times> jsval) list" where
  "sample_bodies =
     map (\<lambda>t. (gemini_body t, gemini_data t)) (map fst json_table @ [[], ''not json''])"

definition sample_parse :: "string \<Rightarrow> string + jsval" where
  "sample_parse s =
     (case map_of (json_table @ sample_bodies) s of
        Some v \<Rightarrow> Inr v
      | None \<Rightarrow> Inl ''Unexpected token'')"

definition sample_stringify :: "jsval \<Rightarrow> string" where
  "sample_stringify v =
     (case find (\<lambda>e. snd e = v) (json_table @ sample_bodies) of
        Some e \<Rightarrow> fst e
      | None \<Rightarrow> [])"

definition sample_number_to_string :: "jsnum \<Rightarrow> string" where
  "sample_number_to_string n =
     (if n = Fin 1 then ''1'' else if n = Fin 7 then ''7'' else if n = Fin 42 then ''42'' else [])"

definition sample_object_to_string :: "jsval \<Rightarrow> exn + string" where
  "sample_object_to_string v =
     (case v of
        JObj kvs \<Rightarrow>
          (case map_of kvs ''toString'' of
             None \<Rightarrow> Inr ''[object Object]''
           | Some f \<Rightarrow> Inl (ErrorExn ''Cannot convert object to primitive value''))
      | _ \<Rightarrow> Inr [])"

definition sample_not_a_function :: "string \<Rightarrow> string" where
  "sample_not_a_function callee = callee @ '' is not a function''"

definition sample_cannot_destructure :: "jsval \<Rightarrow> string" where
  "sample_cannot_destructure v = ''Cannot destructure a value that is null or undefined''"

definition sample_runtime :: runtime where
  "sample_runtime =
     \<lparr>JSON_parse = sample_parse,
      JSON_stringify = sample_stringify,
      number_to_string = sample_number_to_string,
      object_to_string = sample_object_to_string,
      not_a_function = sample_not_a_function,
      cannot_destructure = sample_cannot_destructure\<rparr>"

text \<open>
  Requests, environments with and without the key, replies of the external model and
  of the relay, the call the handler makes for the first request, and a page with
  code typed in.
\<close>

definition sample_request :: jsval where
  "sample_request = JObj [(''language'', JStr ''python''), (''code'', JStr ''print(1'')]"

definition sample_env :: "string \<Rightarrow> string option" where
  "sample_env name = (if name = ''GEMINI_API_KEY'' then Some ''k'' else None)"

definition empty_env :: "string \<Rightarrow> string option" where
  "empty_env name = None"

definition reply_200 :: "string \<Rightarrow> fetch_response" where
  "reply_200 b = \<lparr>ok = True, status = 200, statusText = ''OK'', body_text = b\<rparr>"

definition reply_with :: "nat \<Rightarrow> string \<Rightarrow> fetch_response" where
  "reply_with c b = \<lparr>ok = False, status = c, statusText = [], body_text = b\<rparr>"

definition fetch_gives :: "fetch_response \<Rightarrow> fetch_request \<Rightarrow> exn + fetch_response" where
  "fetch_gives r q = Inr r"

definition other_request :: jsval where
  "other_request = JObj [(''language'', JStr ''c''), (''code'', JStr ''int x'')]"

definition other_env :: "string \<Rightarrow> string option" where
  "other_env name =
     (if name = ''GEMINI_API_KEY'' then Some ''k2''
      else if name = ''GEMINI_MODEL'' then Some ''gemini-pro''
      else None)"

definition sample_call :: fetch_request where
  "sample_call = gemini_request sample_runtime ''gemini-1.5-flash'' ''k'' ''python'' ''print(1''"

definition other_call :: fetch_request where
  "other_call = gemini_request sample_runtime ''gemini-pro'' ''k2'' ''c'' ''int x''"

definition sample_ui :: ui where
  "sample_ui =
     \<lparr>currentLanguage = ''python'',
      code_value = '' print(1 '',
      analyze_disabled = False,
      status_text = [],
      status_show = False,
      timers = [],
      results_html = [],
      error_details_hidden = True,
      corrected_code_hidden = True,
      error_type_text = [],
      error_reason_text = [],
      error_line_text = [],
      fixed_content_text = [],
      isSpeaking = False,
      speak_btn_speaking = False,
      speak_btn_html = [],
      speech_cancels = 0\<rparr>"

definition fetch_throws :: "fetch_request \<Rightarrow> exn + fetch_response" where
  "fetch_throws q = Inl (ErrorExn ''fetch failed'')"

section \<open>Facts about the values and the handler\<close>

lemma typeof_string_iff: "typeof v = ''string'' \<longleftrightarrow> (\<exists>s. v = JStr s)"
  by (cases v) simp_all

lemma destructure_coalesce:
  "destructure rt (coalesce body (JObj [])) =
     Inr (opt_prop body ''language'', opt_prop body ''code'')"
  by (cases body) (simp_all add: destructure_def coalesce_def nullish_def opt_prop_def)

lemma normalize_status: "res_status (normalize parsed) = 200"
  by (simp add: normalize_def json_def status_json_def Let_def)

lemma normalize_error_field: "get_prop (res_body (normalize parsed)) ''error'' \<noteq> JStr s"
  by (simp add: normalize_def json_def status_json_def Let_def)

lemma relay_reply_not_ok:
  "\<not> ok r \<Longrightarrow>
     relay_reply rt r =
       (if status r = 429 then
          Inr (status_json 429
            (JObj [(''error'', JStr ''Rate limit exceeded. Please wait a moment before trying again.''),
                   (''details'', JStr ''Free tier limit: 20 requests per day. Try again later or upgrade your plan.''),
                   (''isRateLimit'', JBool True)]))
        else Inr (status_json 502
               (JObj [(''error'', JStr ''Gemini request failed''), (''details'', JStr (body_text r))])))"
  by (simp add: relay_reply_def)

lemma relay_reply_throws:
  "ok r \<Longrightarrow> response_json rt r = Inl e \<Longrightarrow> relay_reply rt r = Inl e"
  by (simp add: relay_reply_def)

lemma relay_reply_ok:
  "ok r \<Longrightarrow> response_json rt r = Inr data \<Longrightarrow>
     relay_reply rt r =
       (case upstream_content data of
          JStr c \<Rightarrow>
            if c = [] then
              Inr (status_json 502
                (JObj [(''error'', JStr ''Gemini returned empty response''),
                       (''details'', JStr (JSON_stringify rt data))]))
            else (case JSON_parse rt c of
                    Inl m \<Rightarrow>
                      Inr (status_json 502
                        (JObj [(''error'', JStr ''Gemini returned non-JSON''), (''details'', JStr c)]))
                  | Inr parsed \<Rightarrow> Inr (normalize parsed))
        | _ \<Rightarrow>
            Inr (status_json 502
              (JObj [(''error'', JStr ''Gemini returned empty response''),
                     (''details'', JStr (JSON_stringify rt data))])))"
  by (cases "upstream_content data") (simp_all add: relay_reply_def)

lemma relay_reply_parsed:
  assumes "ok response" and "response_json rt response = Inr data"
    and "upstream_content data = JStr c" and "c \<noteq> []" and "JSON_parse rt c = Inr parsed"
  shows "relay_reply rt response = Inr (normalize parsed)"
  using assms by (simp add: relay_reply_ok)

text \<open>
  When the handler has made a call and the call has returned a reply, what it sends is
  decided by lines 56 to 114 alone.
\<close>

lemma handler_sent:
  assumes "fetched (analyze_handler rt env fetch body) = [q]" and "fetch q = Inr response"
  shows "sent (analyze_handler rt env fetch body) =
           (case relay_reply rt response of Inl e \<Rightarrow> server_error e | Inr r \<Rightarrow> r)"
  using assms
  by (auto simp: analyze_handler_def destructure_coalesce Let_def
      split: if_splits sum.splits option.splits)

lemma handler_normalizes:
  assumes "fetched (analyze_handler rt env fetch body) = [q]" and "fetch q = Inr response"
    and "ok response" and "response_json rt response = Inr data"
    and "upstream_content data = JStr c" and "c \<noteq> []" and "JSON_parse rt c = Inr parsed"
  shows "sent (analyze_handler rt env fetch body) = normalize parsed"
  using assms by (simp add: handler_sent relay_reply_parsed)

subsection \<open>The sample inputs, evaluated\<close>

lemmas sample_texts =
  reply_clean_def reply_bare_def reply_syntax_def relay_error_body_def relay_bare_body_def
  relay_limit_body_def

lemma sample_parse_table:
  "sample_parse reply_clean =
     Inr (JObj [(''hasError'', JBool False),
                (''error'', JObj [(''type'', JStr ''x'')]),
                (''correctedCode'', JStr ''y'')])"
  "sample_parse reply_bare =
     Inr (JObj [(''hasError'', JBool True), (''correctedCode'', JNum (Fin 42))])"
  "sample_parse reply_syntax =
     Inr (JObj [(''hasError'', JNum (Fin 1)),
                (''error'', JObj [(''type'', JStr ''SyntaxError''),
                                  (''reason'', JNum (Fin 7)),
                                  (''line'', JNum (Fin 1))]),
                (''correctedCode'', JStr ''print(1)'')])"
  "sample_parse relay_error_body =
     Inr (JObj [(''hasError'', JBool True),
                (''error'', JObj [(''type'', JStr ''SyntaxError''),
                                  (''reason'', JStr ''Unknown''),
                                  (''line'', JNull)]),
                (''correctedCode'', JStr ''print(1)'')])"
  "sample_parse relay_bare_body =
     Inr (JObj [(''hasError'', JBool True),
                (''error'', JObj [(''type'', JStr ''UnknownError''),
                                  (''reason'', JStr ''Unknown''),
                                  (''line'', JNull)]),
                (''correctedCode'', JNum (Fin 42))])"
  "sample_parse relay_limit_body =
     Inr (JObj [(''error'', JStr ''Rate <b>limit</b>''),
                (''details'', JStr ''20 & more''),
                (''isRateLimit'', JBool True)])"
  by (simp_all add: sample_parse_def json_table_def sample_texts)

lemma sample_parse_rejects:
  "sample_parse [] = Inl ''Unexpected token''"
  "sample_parse ''not json'' = Inl ''Unexpected token''"
  by (simp_all add: sample_parse_def json_table_def sample_bodies_def gemini_body_def quoted_def
      sample_texts)

lemma sample_parse_bodies:
  "sample_parse (gemini_body reply_clean) = Inr (gemini_data reply_clean)"
  "sample_parse (gemini_body reply_bare) = Inr (gemini_data reply_bare)"
  "sample_parse (gemini_body reply_syntax) = Inr (gemini_data reply_syntax)"
  "sample_parse (gemini_body []) = Inr (gemini_data [])"
  "sample_parse (gemini_body ''not json'') = Inr (gemini_data ''not json'')"
  by (simp_all add: sample_parse_def json_table_def sample_bodies_def gemini_body_def quoted_def
      sample_texts)

lemma sample_stringify_empty: "sample_stringify (gemini_data []) = gemini_body []"
  by (simp add: sample_stringify_def json_table_def sample_bodies_def gemini_data_def sample_texts)

lemma upstream_content_gemini_data: "upstream_content (gemini_data t) = JStr t"
  by (simp add: upstream_content_def gemini_data_def opt_prop_def opt_elem0_def nullish_def)

lemma sample_runtime_fields:
  "JSON_parse sample_runtime = sample_parse"
  "JSON_stringify sample_runtime = sample_stringify"
  "number_to_string sample_runtime = sample_number_to_string"
  "object_to_string sample_runtime = sample_object_to_string"
  "not_a_function sample_runtime = sample_not_a_function"
  by (simp_all add: sample_runtime_def)

lemma sample_response_json:
  "response_json sample_runtime r =
     (case sample_parse (body_text r) of Inl m \<Rightarrow> Inl (ErrorExn m) | Inr v \<Rightarrow> Inr v)"
  by (simp add: response_json_def sample_runtime_fields)

lemma reply_fields:
  "ok (reply_200 b)" "status (reply_200 b) = 200" "body_text (reply_200 b) = b"
  "\<not> ok (reply_with n b)" "status (reply_with n b) = n" "body_text (reply_with n b) = b"
  by (simp_all add: reply_200_def reply_with_def)

lemma sample_fetched:
  "fetched (analyze_handler sample_runtime sample_env (fetch_gives r) sample_request) = [sample_call]"
  "fetched (analyze_handler sample_runtime other_env (fetch_gives r) other_request) = [other_call]"
  by (simp_all add: analyze_handler_def destructure_def coalesce_def nullish_def sample_request_def
      other_request_def sample_env_def other_env_def fetch_gives_def sample_call_def
      other_call_def Let_def split: sum.splits)

lemma sample_texts_nonempty:
  "reply_clean \<noteq> []" "reply_bare \<noteq> []" "reply_syntax \<noteq> []"
  by (simp_all add: sample_texts)

section \<open>The relay's normalization\<close>

text \<open>
  Claim C1. Whenever the handler has called the external model, the reply had a success
  status, its body was JSON with a non-empty string at
  \<open>candidates[0].content.parts[0].text\<close>, that text parsed as JSON, and the
  \<open>hasError\<close> of the parsed value is not truthy (the parsed value may be null, a
  primitive, an array, or an object with any other fields), the relay answers 200 with
  exactly \<open>{hasError: false, error: null, correctedCode: null}\<close>.
\<close>

theorem relay_no_error_canonical:
  assumes "fetched (analyze_handler rt env fetch body) = [q]" and "fetch q = Inr response"
    and "ok response" and "response_json rt response = Inr data"
    and "upstream_content data = JStr c" and "c \<noteq> []" and "JSON_parse rt c = Inr parsed"
    and "\<not> truthy (opt_prop parsed ''hasError'')"
  shows "sent (analyze_handler rt env fetch body) =
           \<lparr>res_status = 200,
            res_body = JObj [(''hasError'', JBool False),
                             (''error'', JNull),
                             (''correctedCode'', JNull)]\<rparr>"
proof -
  have "sent (analyze_handler rt env fetch body) = normalize parsed"
    using assms(1-7) by (rule handler_normalizes)
  also have "\<dots> = json (JObj [(''hasError'', JBool False),
                               (''error'', JNull),
                               (''correctedCode'', JNull)])"
    using assms(8) by (simp add: normalize_def)
  finally show ?thesis by (simp add: json_def status_json_def)
qed

text \<open>
  The theorem at the sample request, for a model text whose \<open>hasError\<close> is false and
  whose \<open>error\<close> and \<open>correctedCode\<close> are filled in all the same.
\<close>

theorem relay_no_error_canonical_witness:
  "sent (analyze_handler sample_runtime sample_env
           (fetch_gives (reply_200 (gemini_body reply_clean))) sample_request) =
     \<lparr>res_status = 200,
      res_body = JObj [(''hasError'', JBool False),
                       (''error'', JNull),
                       (''correctedCode'', JNull)]\<rparr>"
proof (rule relay_no_error_canonical)
  show "fetched (analyze_handler sample_runtime sample_env
          (fetch_gives (reply_200 (gemini_body reply_clean))) sample_request) = [sample_call]"
    by (rule sample_fetched)
  show "fetch_gives (reply_200 (gemini_body reply_clean)) sample_call =
          Inr (reply_200 (gemini_body reply_clean))"
    by (simp add: fetch_gives_def)
  show "ok (reply_200 (gemini_body reply_clean))"
    by (rule reply_fields)
  show "response_json sample_runtime (reply_200 (gemini_body reply_clean)) =
          Inr (gemini_data reply_clean)"
    by (simp add: sample_response_json reply_fields sample_parse_bodies)
  show "upstream_content (gemini_data reply_clean) = JStr reply_clean"
    by (rule upstream_content_gemini_data)
  show "reply_clean \<noteq> []"
    by (rule sample_texts_nonempty)
  show "JSON_parse sample_runtime reply_clean =
          Inr (JObj [(''hasError'', JBool False),
                     (''error'', JObj [(''type'', JStr ''x'')]),
                     (''correctedCode'', JStr ''y'')])"
    by (simp add: sample_runtime_fields sample_parse_table)
  show "\<not> truthy (opt_prop (JObj [(''hasError'', JBool False),
                                  (''error'', JObj [(''type'', JStr ''x'')]),
                                  (''correctedCode'', JStr ''y'')]) ''hasError'')"
    by (simp add: opt_prop_def nullish_def)
qed

text \<open>
  The branch of the normalization for a truthy \<open>hasError\<close> and an \<open>error\<close> that is
  missing, null or not an object: the placeholder stands in for \<open>error\<close>, and
  \<open>correctedCode\<close> is forwarded as it came, whatever its type (null when it is missing).
\<close>

lemma normalize_placeholder:
  assumes "truthy (opt_prop parsed ''hasError'')" and "opt_prop parsed ''error'' = error"
    and "typeof error \<noteq> ''object'' \<or> error = JNull"
  shows "normalize parsed =
           \<lparr>res_status = 200,
            res_body = JObj [(''hasError'', JBool True),
                             (''error'', JObj [(''type'', JStr ''UnknownError''),
                                               (''reason'', JStr ''Unknown''),
                                               (''line'', JNull)]),
                             (''correctedCode'',
                                coalesce (opt_prop parsed ''correctedCode'') JNull)]\<rparr>"
  using assms
  by (cases error) (auto simp: normalize_def Let_def json_def status_json_def coalesce_def nullish_def)

text \<open>
  Claim C2, at an input where the code departs from it. The model's text is
  \<open>{"hasError":true,"correctedCode":42}\<close>: \<open>hasError\<close> is truthy and \<open>error\<close> is
  missing, so the relay substitutes the placeholder. It forwards \<open>correctedCode\<close> as it
  came, the number 42, where the claim (and the branch for an \<open>error\<close> that is an
  object) gives null for what is not a string.
\<close>

theorem relay_placeholder_forwards_number:
  "sent (analyze_handler sample_runtime sample_env
           (fetch_gives (reply_200 (gemini_body reply_bare))) sample_request) =
     \<lparr>res_status = 200,
      res_body = JObj [(''hasError'', JBool True),
                       (''error'', JObj [(''type'', JStr ''UnknownError''),
                                         (''reason'', JStr ''Unknown''),
                                         (''line'', JNull)]),
                       (''correctedCode'', JNum (Fin 42))]\<rparr>"
proof -
  have "sent (analyze_handler sample_runtime sample_env
          (fetch_gives (reply_200 (gemini_body reply_bare))) sample_request) =
        normalize (JObj [(''hasError'', JBool True), (''correctedCode'', JNum (Fin 42))])"
  proof (rule handler_normalizes)
    show "fetched (analyze_handler sample_runtime sample_env
            (fetch_gives (reply_200 (gemini_body reply_bare))) sample_request) = [sample_call]"
      by (rule sample_fetched)
    show "fetch_gives (reply_200 (gemini_body reply_bare)) sample_call =
            Inr (reply_200 (gemini_body reply_bare))"
      by (simp add: fetch_gives_def)
    show "ok (reply_200 (gemini_body reply_bare))"
      by (rule reply_fields)
    show "response_json sample_runtime (reply_200 (gemini_body reply_bare)) =
            Inr (gemini_data reply_bare)"
      by (simp add: sample_response_json reply_fields sample_parse_bodies)
    show "upstream_content (gemini_data reply_bare) = JStr reply_bare"
      by (rule upstream_content_gemini_data)
    show "reply_bare \<noteq> []"
      by (rule sample_texts_nonempty)
    show "JSON_parse sample_runtime reply_bare =
            Inr (JObj [(''hasError'', JBool True), (''correctedCode'', JNum (Fin 42))])"
      by (simp add: sample_runtime_fields sample_parse_table)
  qed
  also have "\<dots> =
      \<lparr>res_status = 200,
       res_body = JObj [(''hasError'', JBool True),
                        (''error'', JObj [(''type'', JStr ''UnknownError''),
                                          (''reason'', JStr ''Unknown''),
                                          (''line'', JNull)]),
                        (''correctedCode'',
                           coalesce (opt_prop (JObj [(''hasError'', JBool True),
                                                     (''correctedCode'', JNum (Fin 42))])
                                       ''correctedCode'') JNull)]\<rparr>"
    by (rule normalize_placeholder [where error = JUndefined])
       (simp_all add: opt_prop_def nullish_def)
  finally show ?thesis
    by (simp add: opt_prop_def nullish_def coalesce_def)
qed

text \<open>What the client receives there as \<open>correctedCode\<close> is a number, not null.\<close>

theorem relay_placeholder_forwards_number_witness:
  "get_prop (res_body (sent (analyze_handler sample_runtime sample_env
       (fetch_gives (reply_200 (gemini_body reply_bare))) sample_request))) ''correctedCode''
     = JNum (Fin 42)"
  using relay_placeholder_forwards_number by simp

text \<open>
  Claim C3. Under the same conditions on the reply as in C1, when \<open>hasError\<close> of the
  parsed value is truthy and its \<open>error\<close> is an object (an array counts as one, null does
  not), the relay answers 200 with \<open>hasError\<close> true; \<open>error.type\<close> and \<open>error.reason\<close>
  are those of the reply when they are strings and \<open>UnknownError\<close> and \<open>Unknown\<close>
  otherwise; \<open>error.line\<close> is that of the reply, unchanged, when it is a number and null
  otherwise; \<open>correctedCode\<close> is that of the reply when it is a string and null otherwise.
\<close>

theorem relay_error_object_coerced:
  assumes "fetched (analyze_handler rt env fetch body) = [q]" and "fetch q = Inr response"
    and "ok response" and "response_json rt response = Inr data"
    and "upstream_content data = JStr c" and "c \<noteq> []" and "JSON_parse rt c = Inr parsed"
    and "truthy (opt_prop parsed ''hasError'')"
    and "opt_prop parsed ''error'' = error" and "typeof error = ''object''" and "error \<noteq> JNull"
  shows "sent (analyze_handler rt env fetch body) =
           \<lparr>res_status = 200,
            res_body =
              JObj [(''hasError'', JBool True),
                    (''error'',
                       JObj [(''type'', case get_prop error ''type'' of
                                          JStr s \<Rightarrow> JStr s | _ \<Rightarrow> JStr ''UnknownError''),
                             (''reason'', case get_prop error ''reason'' of
                                            JStr s \<Rightarrow> JStr s | _ \<Rightarrow> JStr ''Unknown''),
                             (''line'', case get_prop error ''line'' of
                                          JNum n \<Rightarrow> JNum n | _ \<Rightarrow> JNull)]),
                    (''correctedCode'', case opt_prop parsed ''correctedCode'' of
                                          JStr s \<Rightarrow> JStr s | _ \<Rightarrow> JNull)]\<rparr>"
proof -
  have reach: "sent (analyze_handler rt env fetch body) = normalize parsed"
    using assms(1-7) by (rule handler_normalizes)
  have obj: "truthy error" "coalesce error JNull = error"
    using assms(10,11) by (cases error; simp add: coalesce_def nullish_def)+
  have str: "(if typeof v = ''string'' then v else d) = (case v of JStr s \<Rightarrow> JStr s | _ \<Rightarrow> d)"
    for v d by (cases v) simp_all
  have num: "(if typeof v = ''number'' then v else d) = (case v of JNum n \<Rightarrow> JNum n | _ \<Rightarrow> d)"
    for v d by (cases v) simp_all
  have code: "(case coalesce v JNull of JStr s \<Rightarrow> JStr s | _ \<Rightarrow> JNull)
                = (case v of JStr s \<Rightarrow> JStr s | _ \<Rightarrow> JNull)"
    for v by (cases v) (simp_all add: coalesce_def nullish_def)
  show ?thesis
    unfolding reach
    using assms(8,9,10) obj
    by (simp add: normalize_def Let_def json_def status_json_def str num code)
qed

text \<open>
  The theorem at a model text with a truthy number for \<open>hasError\<close>, a string \<open>type\<close>, a
  number for \<open>reason\<close> and the line 1: the reason falls back, the line passes.
\<close>

theorem relay_error_object_coerced_witness:
  "sent (analyze_handler sample_runtime sample_env
           (fetch_gives (reply_200 (gemini_body reply_syntax))) sample_request) =
     \<lparr>res_status = 200,
      res_body = JObj [(''hasError'', JBool True),
                       (''error'', JObj [(''type'', JStr ''SyntaxError''),
                                         (''reason'', JStr ''Unknown''),
                                         (''line'', JNum (Fin 1))]),
                       (''correctedCode'', JStr ''print(1)'')]\<rparr>"
proof -
  let ?parsed = "JObj [(''hasError'', JNum (Fin 1)),
                       (''error'', JObj [(''type'', JStr ''SyntaxError''),
                                         (''reason'', JNum (Fin 7)),
                                         (''line'', JNum (Fin 1))]),
                       (''correctedCode'', JStr ''print(1)'')]"
  let ?error = "JObj [(''type'', JStr ''SyntaxError''),
                      (''reason'', JNum (Fin 7)),
                      (''line'', JNum (Fin 1))]"
  have "fetched (analyze_handler sample_runtime sample_env
          (fetch_gives (reply_200 (gemini_body reply_syntax))) sample_request) = [sample_call]"
    by (rule sample_fetched)
  moreover have "fetch_gives (reply_200 (gemini_body reply_syntax)) sample_call =
          Inr (reply_200 (gemini_body reply_syntax))"
    by (simp add: fetch_gives_def)
  moreover have "ok (reply_200 (gemini_body reply_syntax))"
    by (rule reply_fields)
  moreover have "response_json sample_runtime (reply_200 (gemini_body reply_syntax)) =
          Inr (gemini_data reply_syntax)"
    by (simp add: sample_response_json reply_fields sample_parse_bodies)
  moreover have "upstream_content (gemini_data reply_syntax) = JStr reply_syntax"
    by (rule upstream_content_gemini_data)
  moreover have "reply_syntax \<noteq> []"
    by (rule sample_texts_nonempty)
  moreover have "JSON_parse sample_runtime reply_syntax = Inr ?parsed"
    by (simp add: sample_runtime_fields sample_parse_table)
  moreover have "truthy (opt_prop ?parsed ''hasError'')"
    by (simp add: opt_prop_def nullish_def)
  moreover have "opt_prop ?parsed ''error'' = ?error"
    by (simp add: opt_prop_def nullish_def)
  moreover have "typeof ?error = ''object''" and "?error \<noteq> JNull"
    by simp_all
  ultimately have "sent (analyze_handler sample_runtime sample_env
           (fetch_gives (reply_200 (gemini_body reply_syntax))) sample_request) =
           \<lparr>res_status = 200,
            res_body =
              JObj [(''hasError'', JBool True),
                    (''error'',
                       JObj [(''type'', case get_prop ?error ''type'' of
                                          JStr s \<Rightarrow> JStr s | _ \<Rightarrow> JStr ''UnknownError''),
                             (''reason'', case get_prop ?error ''reason'' of
                                            JStr s \<Rightarrow> JStr s | _ \<Rightarrow> JStr ''Unknown''),
                             (''line'', case get_prop ?error ''line'' of
                                          JNum n \<Rightarrow> JNum n | _ \<Rightarrow> JNull)]),
                    (''correctedCode'', case opt_prop ?parsed ''correctedCode'' of
                                          JStr s \<Rightarrow> JStr s | _ \<Rightarrow> JNull)]\<rparr>"
    by (rule relay_error_object_coerced)
  then show ?thesis
    by (simp add: opt_prop_def nullish_def)
qed

section \<open>The relay's validation and failure classes\<close>

text \<open>
  Claim C4. The checks run in order and the first failure wins. A request whose
  \<open>language\<close> is missing, empty or not a string is answered 400 \<open>Missing language\<close>;
  otherwise one whose \<open>code\<close> is missing, empty or not a string is answered 400
  \<open>Missing code\<close>; otherwise, when the environment has no \<open>GEMINI_API_KEY\<close>, the answer
  is 500 \<open>Server missing GEMINI_API_KEY\<close>. In all three cases no call to the external
  model is made. The fields are those of the request body, undefined when there is no
  body.
\<close>

theorem relay_validation_order:
  "(\<not> (\<exists>l. opt_prop body ''language'' = JStr l \<and> l \<noteq> []) \<longrightarrow>
      analyze_handler rt env fetch body =
        \<lparr>sent = \<lparr>res_status = 400, res_body = JObj [(''error'', JStr ''Missing language'')]\<rparr>,
         fetched = []\<rparr>)
   \<and> ((\<exists>l. opt_prop body ''language'' = JStr l \<and> l \<noteq> [])
        \<and> \<not> (\<exists>c. opt_prop body ''code'' = JStr c \<and> c \<noteq> []) \<longrightarrow>
      analyze_handler rt env fetch body =
        \<lparr>sent = \<lparr>res_status = 400, res_body = JObj [(''error'', JStr ''Missing code'')]\<rparr>,
         fetched = []\<rparr>)
   \<and> ((\<exists>l. opt_prop body ''language'' = JStr l \<and> l \<noteq> [])
        \<and> (\<exists>c. opt_prop body ''code'' = JStr c \<and> c \<noteq> [])
        \<and> env ''GEMINI_API_KEY'' = None \<longrightarrow>
      analyze_handler rt env fetch body =
        \<lparr>sent = \<lparr>res_status = 500,
                 res_body = JObj [(''error'', JStr ''Server missing GEMINI_API_KEY'')]\<rparr>,
         fetched = []\<rparr>)"
  by (cases "opt_prop body ''language''"; cases "opt_prop body ''code''")
     (simp_all add: analyze_handler_def destructure_coalesce status_json_def)

text \<open>
  The theorem at three requests: one with a number for \<open>language\<close> and no \<open>code\<close>, one
  with an empty \<open>code\<close>, and the sample request in an environment without the key.
\<close>

theorem relay_validation_order_witness:
  "analyze_handler sample_runtime sample_env fetch_throws (JObj [(''language'', JNum (Fin 3))]) =
     \<lparr>sent = \<lparr>res_status = 400, res_body = JObj [(''error'', JStr ''Missing language'')]\<rparr>,
      fetched = []\<rparr>
   \<and> analyze_handler sample_runtime sample_env fetch_throws
        (JObj [(''language'', JStr ''python''), (''code'', JStr [])]) =
     \<lparr>sent = \<lparr>res_status = 400, res_body = JObj [(''error'', JStr ''Missing code'')]\<rparr>,
      fetched = []\<rparr>
   \<and> analyze_handler sample_runtime empty_env fetch_throws sample_request =
     \<lparr>sent = \<lparr>res_status = 500,
              res_body = JObj [(''error'', JStr ''Server missing GEMINI_API_KEY'')]\<rparr>,
      fetched = []\<rparr>"
  using
    relay_validation_order [of "JObj [(''language'', JNum (Fin 3))]"
      sample_runtime sample_env fetch_throws]
    relay_validation_order [of "JObj [(''language'', JStr ''python''), (''code'', JStr [])]"
      sample_runtime sample_env fetch_throws]
    relay_validation_order [of sample_request sample_runtime empty_env fetch_throws]
  by (simp add: opt_prop_def nullish_def sample_request_def empty_env_def)

text \<open>
  Claim C10. A request body that is absent (undefined) or null does not make the
  handler throw: the default of the null-coalescing operator is what gets destructured,
  both fields come out undefined, and the request is answered 400 \<open>Missing language\<close>
  with no call to the external model.
\<close>

theorem relay_absent_body_rejected:
  assumes "body = JUndefined \<or> body = JNull"
  shows "destructure rt (coalesce body (JObj [])) = Inr (JUndefined, JUndefined)
         \<and> analyze_handler rt env fetch body =
             \<lparr>sent = \<lparr>res_status = 400, res_body = JObj [(''error'', JStr ''Missing language'')]\<rparr>,
              fetched = []\<rparr>"
  using assms
  by (auto simp: analyze_handler_def destructure_def coalesce_def nullish_def status_json_def)

theorem relay_absent_body_rejected_witness:
  "analyze_handler sample_runtime sample_env fetch_throws JNull =
     \<lparr>sent = \<lparr>res_status = 400, res_body = JObj [(''error'', JStr ''Missing language'')]\<rparr>,
      fetched = []\<rparr>
   \<and> analyze_handler sample_runtime sample_env fetch_throws JUndefined =
     \<lparr>sent = \<lparr>res_status = 400, res_body = JObj [(''error'', JStr ''Missing language'')]\<rparr>,
      fetched = []\<rparr>"
  using relay_absent_body_rejected [of JNull sample_runtime sample_env fetch_throws]
    relay_absent_body_rejected [of JUndefined sample_runtime sample_env fetch_throws]
  by simp

text \<open>
  Claim C5 fails as stated at two replies with a success status. In the first the text
  at \<open>candidates[0].content.parts[0].text\<close> is the empty string: it is a string, and
  \<open>JSON.parse\<close> rejects it, yet the relay answers \<open>Gemini returned empty response\<close>, not
  \<open>Gemini returned non-JSON\<close>, because the guard before the parse tests the text for
  truthiness. In the second the body itself is not JSON, so it has no text payload:
  \<open>response.json()\<close> throws and the handler's \<open>catch\<close> answers 500 \<open>Server error\<close>, not
  502.
\<close>

theorem relay_empty_text_is_empty_response:
  "response_json sample_runtime (reply_200 (gemini_body [])) = Inr (gemini_data [])
   \<and> typeof (upstream_content (gemini_data [])) = ''string''
   \<and> JSON_parse sample_runtime (str_of (upstream_content (gemini_data []))) = Inl ''Unexpected token''
   \<and> sent (analyze_handler sample_runtime sample_env
              (fetch_gives (reply_200 (gemini_body []))) sample_request) =
        \<lparr>res_status = 502,
         res_body = JObj [(''error'', JStr ''Gemini returned empty response''),
                          (''details'', JStr (gemini_body []))]\<rparr>
   \<and> response_json sample_runtime (reply_200 ''not json'') = Inl (ErrorExn ''Unexpected token'')
   \<and> sent (analyze_handler sample_runtime sample_env
              (fetch_gives (reply_200 ''not json'')) sample_request) =
        \<lparr>res_status = 500,
         res_body = JObj [(''error'', JStr ''Server error''),
                          (''details'', JStr ''Unexpected token'')]\<rparr>"
proof -
  have "sent (analyze_handler sample_runtime sample_env
          (fetch_gives (reply_200 (gemini_body []))) sample_request) =
        (case relay_reply sample_runtime (reply_200 (gemini_body [])) of
           Inl e \<Rightarrow> server_error e | Inr r \<Rightarrow> r)"
    by (rule handler_sent [OF sample_fetched(1)]) (simp add: fetch_gives_def)
  moreover have "relay_reply sample_runtime (reply_200 (gemini_body [])) =
      Inr \<lparr>res_status = 502,
           res_body = JObj [(''error'', JStr ''Gemini returned empty response''),
                            (''details'', JStr (gemini_body []))]\<rparr>"
    by (simp add: relay_reply_def sample_response_json sample_parse_bodies
        upstream_content_gemini_data status_json_def sample_runtime_fields sample_stringify_empty
        reply_fields)
  moreover have "sent (analyze_handler sample_runtime sample_env
          (fetch_gives (reply_200 ''not json'')) sample_request) =
        (case relay_reply sample_runtime (reply_200 ''not json'') of
           Inl e \<Rightarrow> server_error e | Inr r \<Rightarrow> r)"
    by (rule handler_sent [OF sample_fetched(1)]) (simp add: fetch_gives_def)
  moreover have "relay_reply sample_runtime (reply_200 ''not json'') =
      Inl (ErrorExn ''Unexpected token'')"
    by (simp add: relay_reply_def sample_response_json sample_parse_rejects reply_fields)
  ultimately show ?thesis
    by (simp add: upstream_content_gemini_data sample_runtime_fields sample_parse_rejects
        sample_response_json reply_fields sample_parse_bodies server_error_def status_json_def)
qed

text \<open>
  Claim C5, amended. Once the handler has called the external model and got a reply,
  the reply falls in exactly one of six classes, each with its own answer: a
  non-success status 429 gives 429 with \<open>isRateLimit\<close> true; any other non-success status
  gives 502 \<open>Gemini request failed\<close> with the body as details; a success status whose
  body is JSON without a non-empty string at \<open>candidates[0].content.parts[0].text\<close>
  (missing, not a string, or the empty string) gives 502
  \<open>Gemini returned empty response\<close>; a non-empty text that fails JSON parsing gives 502
  \<open>Gemini returned non-JSON\<close> with the raw text as details; a text that parses gives
  status 200; a success status whose body is not JSON gives 500 \<open>Server error\<close>. The
  last four conjuncts are the converses: each of the four failure answers of the claim
  is given in its own class only.
\<close>

theorem relay_upstream_classes:
  assumes "fetched (analyze_handler rt env fetch body) = [q]" and "fetch q = Inr r"
  shows
    "(\<not> ok r \<and> status r = 429 \<longrightarrow>
        sent (analyze_handler rt env fetch body) =
          \<lparr>res_status = 429,
           res_body =
             JObj [(''error'', JStr ''Rate limit exceeded. Please wait a moment before trying again.''),
                   (''details'', JStr ''Free tier limit: 20 requests per day. Try again later or upgrade your plan.''),
                   (''isRateLimit'', JBool True)]\<rparr>)
     \<and> (\<not> ok r \<and> status r \<noteq> 429 \<longrightarrow>
        sent (analyze_handler rt env fetch body) =
          \<lparr>res_status = 502,
           res_body = JObj [(''error'', JStr ''Gemini request failed''),
                            (''details'', JStr (body_text r))]\<rparr>)
     \<and> (\<forall>data. ok r \<and> response_json rt r = Inr data
            \<and> \<not> (\<exists>c. upstream_content data = JStr c \<and> c \<noteq> []) \<longrightarrow>
        sent (analyze_handler rt env fetch body) =
          \<lparr>res_status = 502,
           res_body = JObj [(''error'', JStr ''Gemini returned empty response''),
                            (''details'', JStr (JSON_stringify rt data))]\<rparr>)
     \<and> (\<forall>data c m. ok r \<and> response_json rt r = Inr data
            \<and> upstream_content data = JStr c \<and> c \<noteq> [] \<and> JSON_parse rt c = Inl m \<longrightarrow>
        sent (analyze_handler rt env fetch body) =
          \<lparr>res_status = 502,
           res_body = JObj [(''error'', JStr ''Gemini returned non-JSON''),
                            (''details'', JStr c)]\<rparr>)
     \<and> (\<forall>data c parsed. ok r \<and> response_json rt r = Inr data
            \<and> upstream_content data = JStr c \<and> c \<noteq> [] \<and> JSON_parse rt c = Inr parsed \<longrightarrow>
        res_status (sent (analyze_handler rt env fetch body)) = 200)
     \<and> (\<forall>e. ok r \<and> response_json rt r = Inl e \<longrightarrow>
        sent (analyze_handler rt env fetch body) =
          \<lparr>res_status = 500,
           res_body = JObj [(''error'', JStr ''Server error''),
                            (''details'', JStr (exn_text e))]\<rparr>)
     \<and> (res_status (sent (analyze_handler rt env fetch body)) = 429 \<longrightarrow>
          \<not> ok r \<and> status r = 429)
     \<and> (get_prop (res_body (sent (analyze_handler rt env fetch body))) ''error''
            = JStr ''Gemini request failed'' \<longrightarrow>
          \<not> ok r \<and> status r \<noteq> 429)
     \<and> (get_prop (res_body (sent (analyze_handler rt env fetch body))) ''error''
            = JStr ''Gemini returned empty response'' \<longrightarrow>
          ok r \<and> (\<exists>data. response_json rt r = Inr data
                    \<and> \<not> (\<exists>c. upstream_content data = JStr c \<and> c \<noteq> [])))
     \<and> (get_prop (res_body (sent (analyze_handler rt env fetch body))) ''error''
            = JStr ''Gemini returned non-JSON'' \<longrightarrow>
          ok r \<and> (\<exists>data c m. response_json rt r = Inr data \<and> upstream_content data = JStr c
                    \<and> c \<noteq> [] \<and> JSON_parse rt c = Inl m))"
proof -
  have sent: "sent (analyze_handler rt env fetch body) =
                (case relay_reply rt r of Inl e \<Rightarrow> server_error e | Inr x \<Rightarrow> x)"
    using assms by (rule handler_sent)
  show ?thesis
  proof (cases "ok r")
    case False
    then show ?thesis
      unfolding sent by (simp add: relay_reply_not_ok status_json_def)
  next
    case True
    show ?thesis
    proof (cases "response_json rt r")
      case (Inl e)
      with True show ?thesis
        unfolding sent by (simp add: relay_reply_throws server_error_def status_json_def)
    next
      case (Inr data)
      with True show ?thesis
        unfolding sent
        by (cases "upstream_content data")
           (auto simp: relay_reply_ok status_json_def normalize_status normalize_error_field
              split: sum.splits)
    qed
  qed
qed

text \<open>
  The theorem at five replies to the sample request: status 429, status 500, a success
  whose data has no candidates, a success whose text is \<open>not json\<close>, and a success
  whose text parses.
\<close>

theorem relay_upstream_classes_witness:
  "sent (analyze_handler sample_runtime sample_env
           (fetch_gives (reply_with 429 ''quota'')) sample_request) =
     \<lparr>res_status = 429,
      res_body =
        JObj [(''error'', JStr ''Rate limit exceeded. Please wait a moment before trying again.''),
              (''details'', JStr ''Free tier limit: 20 requests per day. Try again later or upgrade your plan.''),
              (''isRateLimit'', JBool True)]\<rparr>
   \<and> sent (analyze_handler sample_runtime sample_env
           (fetch_gives (reply_with 500 ''down'')) sample_request) =
     \<lparr>res_status = 502,
      res_body = JObj [(''error'', JStr ''Gemini request failed''), (''details'', JStr ''down'')]\<rparr>
   \<and> sent (analyze_handler sample_runtime sample_env
           (fetch_gives (reply_200 reply_clean)) sample_request) =
     \<lparr>res_status = 502,
      res_body = JObj [(''error'', JStr ''Gemini returned empty response''),
                       (''details'', JStr reply_clean)]\<rparr>
   \<and> sent (analyze_handler sample_runtime sample_env
           (fetch_gives (reply_200 (gemini_body ''not json''))) sample_request) =
     \<lparr>res_status = 502,
      res_body = JObj [(''error'', JStr ''Gemini returned non-JSON''),
                       (''details'', JStr ''not json'')]\<rparr>
   \<and> res_status (sent (analyze_handler sample_runtime sample_env
           (fetch_gives (reply_200 (gemini_body reply_syntax))) sample_request)) = 200"
proof -
  have call: "fetch_gives x sample_call = Inr x" for x
    by (simp add: fetch_gives_def)
  have stringify: "sample_stringify (JObj [(''hasError'', JBool False),
                (''error'', JObj [(''type'', JStr ''x'')]),
                (''correctedCode'', JStr ''y'')]) = reply_clean"
    by (simp add: sample_stringify_def json_table_def)
  have content: "upstream_content (JObj [(''hasError'', JBool False),
                (''error'', JObj [(''type'', JStr ''x'')]),
                (''correctedCode'', JStr ''y'')]) = JUndefined"
    by (simp add: upstream_content_def opt_prop_def opt_elem0_def nullish_def)
  have "sent (analyze_handler sample_runtime sample_env
           (fetch_gives (reply_with 429 ''quota'')) sample_request) =
     \<lparr>res_status = 429,
      res_body =
        JObj [(''error'', JStr ''Rate limit exceeded. Please wait a moment before trying again.''),
              (''details'', JStr ''Free tier limit: 20 requests per day. Try again later or upgrade your plan.''),
              (''isRateLimit'', JBool True)]\<rparr>"
    using relay_upstream_classes [OF sample_fetched(1) call, of "reply_with 429 ''quota''"]
    by (simp add: reply_fields)
  moreover have "sent (analyze_handler sample_runtime sample_env
           (fetch_gives (reply_with 500 ''down'')) sample_request) =
     \<lparr>res_status = 502,
      res_body = JObj [(''error'', JStr ''Gemini request failed''), (''details'', JStr ''down'')]\<rparr>"
    using relay_upstream_classes [OF sample_fetched(1) call, of "reply_with 500 ''down''"]
    by (simp add: reply_fields)
  moreover have "sent (analyze_handler sample_runtime sample_env
           (fetch_gives (reply_200 reply_clean)) sample_request) =
     \<lparr>res_status = 502,
      res_body = JObj [(''error'', JStr ''Gemini returned empty response''),
                       (''details'', JStr reply_clean)]\<rparr>"
    using relay_upstream_classes [OF sample_fetched(1) call, of "reply_200 reply_clean"]
    by (simp add: reply_fields sample_response_json sample_parse_table content stringify
        sample_runtime_fields)
  moreover have "sent (analyze_handler sample_runtime sample_env
           (fetch_gives (reply_200 (gemini_body ''not json''))) sample_request) =
     \<lparr>res_status = 502,
      res_body = JObj [(''error'', JStr ''Gemini returned non-JSON''),
                       (''details'', JStr ''not json'')]\<rparr>"
    using relay_upstream_classes [OF sample_fetched(1) call, of "reply_200 (gemini_body ''not json'')"]
    by (simp add: reply_fields sample_response_json sample_parse_bodies
        upstream_content_gemini_data sample_runtime_fields sample_parse_rejects)
  moreover have "res_status (sent (analyze_handler sample_runtime sample_env
           (fetch_gives (reply_200 (gemini_body reply_syntax))) sample_request)) = 200"
    using relay_upstream_classes [OF sample_fetched(1) call, of "reply_200 (gemini_body reply_syntax)"]
    by (simp add: reply_fields sample_response_json sample_parse_bodies
        upstream_content_gemini_data sample_runtime_fields sample_parse_table
        sample_texts_nonempty)
  ultimately show ?thesis by simp
qed

text \<open>
  Claim C6. The answer of the relay to a parsed reply is a function of the parsed value
  alone: two runs of the handler, with any requests, environments, runtimes and replies
  of the external model, whose replies parse to the same value send the same response,
  and it is the normalization of that value.
\<close>

theorem relay_normalization_deterministic:
  assumes "fetched (analyze_handler rt env fetch body) = [q]" and "fetch q = Inr response"
    and "ok response" and "response_json rt response = Inr data"
    and "upstream_content data = JStr c" and "c \<noteq> []" and "JSON_parse rt c = Inr parsed"
    and "fetched (analyze_handler rt' env' fetch' body') = [q']" and "fetch' q' = Inr response'"
    and "ok response'" and "response_json rt' response' = Inr data'"
    and "upstream_content data' = JStr c'" and "c' \<noteq> []" and "JSON_parse rt' c' = Inr parsed"
  shows "sent (analyze_handler rt env fetch body) = sent (analyze_handler rt' env' fetch' body')
         \<and> sent (analyze_handler rt env fetch body) = normalize parsed"
proof -
  have "sent (analyze_handler rt env fetch body) = normalize parsed"
    using assms(1-7) by (rule handler_normalizes)
  moreover have "sent (analyze_handler rt' env' fetch' body') = normalize parsed"
    using assms(8-14) by (rule handler_normalizes)
  ultimately show ?thesis by simp
qed

text \<open>
  The theorem at two runs that differ in the request, the key, the model and the status
  line of the reply, and agree on the model's text.
\<close>

theorem relay_normalization_deterministic_witness:
  "sent (analyze_handler sample_runtime sample_env
           (fetch_gives (reply_200 (gemini_body reply_syntax))) sample_request) =
   sent (analyze_handler sample_runtime other_env
           (fetch_gives \<lparr>ok = True, status = 201, statusText = ''Created'',
                         body_text = gemini_body reply_syntax\<rparr>) other_request)"
proof -
  let ?r' = "\<lparr>ok = True, status = 201, statusText = ''Created'',
              body_text = gemini_body reply_syntax\<rparr>"
  let ?parsed = "JObj [(''hasError'', JNum (Fin 1)),
                       (''error'', JObj [(''type'', JStr ''SyntaxError''),
                                         (''reason'', JNum (Fin 7)),
                                         (''line'', JNum (Fin 1))]),
                       (''correctedCode'', JStr ''print(1)'')]"
  have "sent (analyze_handler sample_runtime sample_env
           (fetch_gives (reply_200 (gemini_body reply_syntax))) sample_request) =
        sent (analyze_handler sample_runtime other_env (fetch_gives ?r') other_request)
        \<and> sent (analyze_handler sample_runtime sample_env
           (fetch_gives (reply_200 (gemini_body reply_syntax))) sample_request) =
          normalize ?parsed"
  proof (rule relay_normalization_deterministic)
    show "fetched (analyze_handler sample_runtime sample_env
            (fetch_gives (reply_200 (gemini_body reply_syntax))) sample_request) = [sample_call]"
      by (rule sample_fetched)
    show "fetch_gives (reply_200 (gemini_body reply_syntax)) sample_call =
            Inr (reply_200 (gemini_body reply_syntax))"
      by (simp add: fetch_gives_def)
    show "ok (reply_200 (gemini_body reply_syntax))"
      by (rule reply_fields)
    show "response_json sample_runtime (reply_200 (gemini_body reply_syntax)) =
            Inr (gemini_data reply_syntax)"
      by (simp add: sample_response_json reply_fields sample_parse_bodies)
    show "upstream_content (gemini_data reply_syntax) = JStr reply_syntax"
      by (rule upstream_content_gemini_data)
    show "reply_syntax \<noteq> []"
      by (rule sample_texts_nonempty)
    show "JSON_parse sample_runtime reply_syntax = Inr ?parsed"
      by (simp add: sample_runtime_fields sample_parse_table)
    show "fetched (analyze_handler sample_runtime other_env (fetch_gives ?r') other_request) =
            [other_call]"
      by (rule sample_fetched)
    show "fetch_gives ?r' other_call = Inr ?r'"
      by (simp add: fetch_gives_def)
    show "ok ?r'"
      by simp
    show "response_json sample_runtime ?r' = Inr (gemini_data reply_syntax)"
      by (simp add: response_json_def sample_runtime_fields sample_parse_bodies)
    show "upstream_content (gemini_data reply_syntax) = JStr reply_syntax"
      by (rule upstream_content_gemini_data)
    show "reply_syntax \<noteq> []"
      by (rule sample_texts_nonempty)
    show "JSON_parse sample_runtime reply_syntax = Inr ?parsed"
      by (simp add: sample_runtime_fields sample_parse_table)
  qed
  then show ?thesis by simp
qed

section \<open>The client\<close>

lemma replaceAll_Nil: "replaceAll p r [] = []"
  by (simp add: replaceAll_def)

lemma replaceAll_Cons: "replaceAll p r (c # s) = (if c = p then r else [c]) @ replaceAll p r s"
  by (simp add: replaceAll_def)

lemma replaceAll_append: "replaceAll p r (a @ b) = replaceAll p r a @ replaceAll p r b"
  by (simp add: replaceAll_def)

lemma escapeHtml_Nil: "escapeHtml [] = []"
  by (simp add: escapeHtml_def replaceAll_Nil)

text \<open>
  The five passes of \<open>escapeHtml\<close> act on a string one character at a time: the pass for
  the ampersand runs first, so no later pass meets an ampersand it would have to leave
  alone, and no entity holds a character that a later pass replaces.
\<close>

lemma escapeHtml_Cons: "escapeHtml (c # s) = html_entity c @ escapeHtml s"
  by (simp add: escapeHtml_def html_entity_def replaceAll_Cons replaceAll_append replaceAll_Nil)

lemma escapeHtml_concat: "escapeHtml s = concat (map html_entity s)"
  by (induction s) (simp_all add: escapeHtml_Nil escapeHtml_Cons)

lemma html_entity_chars:
  "x \<in> set (html_entity c) \<Longrightarrow>
     x \<noteq> CHR ''<'' \<and> x \<noteq> CHR ''>'' \<and> x \<noteq> CHR 0x22 \<and> x \<noteq> CHR 0x27"
  by (auto simp: html_entity_def split: if_splits)

lemma escapeHtml_chars:
  "x \<in> set (escapeHtml s) \<Longrightarrow>
     x \<noteq> CHR ''<'' \<and> x \<noteq> CHR ''>'' \<and> x \<noteq> CHR 0x22 \<and> x \<noteq> CHR 0x27"
  unfolding escapeHtml_concat using html_entity_chars by auto

lemma html_entity_amp:
  "i < length (html_entity c) \<Longrightarrow> html_entity c ! i = CHR ''&'' \<Longrightarrow>
     i = 0 \<and> html_entity c \<in> set entities"
  by (auto simp: html_entity_def entities_def nth_Cons' split: if_splits)

lemma escapeHtml_amp:
  "i < length (escapeHtml s) \<Longrightarrow> escapeHtml s ! i = CHR ''&'' \<Longrightarrow>
     \<exists>e \<in> set entities. take (length e) (drop i (escapeHtml s)) = e"
proof (induction s arbitrary: i)
  case Nil
  then show ?case by (simp add: escapeHtml_Nil)
next
  case (Cons c s)
  show ?case
  proof (cases "i < length (html_entity c)")
    case True
    with Cons.prems have "html_entity c ! i = CHR ''&''"
      by (simp add: escapeHtml_Cons nth_append)
    with True have "i = 0" and "html_entity c \<in> set entities"
      using html_entity_amp by blast+
    then show ?thesis
      by (intro bexI [of _ "html_entity c"]) (simp_all add: escapeHtml_Cons)
  next
    case False
    define j where "j = i - length (html_entity c)"
    from False Cons.prems have "j < length (escapeHtml s)" and "escapeHtml s ! j = CHR ''&''"
      by (simp_all add: j_def escapeHtml_Cons nth_append)
    then obtain e where "e \<in> set entities" and "take (length e) (drop j (escapeHtml s)) = e"
      using Cons.IH by blast
    with False show ?thesis
      by (intro bexI [of _ e]) (simp_all add: escapeHtml_Cons j_def)
  qed
qed

lemma trim_Nil: "trim [] = []"
  by (simp add: trim_def)

lemma analyze_settle_enabled: "\<not> analyze_disabled (analyze_settle rt settled u)"
  by (simp add: analyze_settle_def split: prod.splits)

text \<open>What the client shows for an answer of the relay with a non-success status.\<close>

lemma failure_panel:
  assumes "\<not> ok resp"
  shows "results_html (analyze_settle rt (Inr resp) u) =
     (let data = (case response_json rt resp of Inl e \<Rightarrow> JNull | Inr v \<Rightarrow> v);
          msg = js_or (opt_prop data ''error'') (JStr ''Request failed'');
          details = js_or (opt_prop data ''details'') (JStr [])
      in
        if truthy (opt_prop data ''isRateLimit'') then
          (case msg of
             JStr m \<Rightarrow>
               (case details of
                  JStr d \<Rightarrow> rate_limit_html (escapeHtml m) (escapeHtml d)
                | _ \<Rightarrow> connection_error_html (escapeHtml (not_a_function rt ''s.replaceAll'')))
           | _ \<Rightarrow> connection_error_html (escapeHtml (not_a_function rt ''s.replaceAll'')))
        else
          (case msg of
             JStr m \<Rightarrow> analysis_failed_html (escapeHtml m)
           | _ \<Rightarrow> connection_error_html (escapeHtml (not_a_function rt ''s.replaceAll''))))"
proof -
  define data where "data = (case response_json rt resp of Inl e \<Rightarrow> JNull | Inr v \<Rightarrow> v)"
  have rl: "truthy (js_or v (JBool False)) = truthy v" for v
    by (simp add: js_or_def)
  let ?m = "js_or (opt_prop data ''error'') (JStr ''Request failed'')"
  let ?d = "js_or (opt_prop data ''details'') (JStr [])"
  show ?thesis
    unfolding Let_def data_def [symmetric] using assms
    by (cases ?m; cases ?d)
       (simp_all add: analyze_settle_def analyze_try_def Let_def data_def [symmetric] rl
          escapeHtml_call_def stopSpeaking_def)
qed

text \<open>
  Claim C7. When \<open>analyze\<close> issues a relay call, it disables the trigger before the
  call, and the trigger is enabled again once the call has settled: for every way the
  call can settle (a rejected \<open>fetch\<close>, or a response of any status and body), and for
  every state the page is in at that moment, the page after \<open>analyze\<close> has
  \<open>analyzeBtn.disabled\<close> false.
\<close>

theorem analyze_reenables_trigger:
  assumes "snd (analyze_begin rt u) = Some request"
  shows "analyze_disabled (fst (analyze_begin rt u))
         \<and> (\<forall>settled u'. \<not> analyze_disabled (analyze_settle rt settled u'))
         \<and> \<not> analyze_disabled (analyze rt fetch u)"
proof -
  have "analyze_disabled (fst (analyze_begin rt u))"
    using assms by (simp add: analyze_begin_def setStatus_def Let_def split: if_splits)
  moreover have "\<not> analyze_disabled (analyze rt fetch u)"
    using assms by (cases "analyze_begin rt u") (simp add: analyze_def analyze_settle_enabled)
  ultimately show ?thesis by (simp add: analyze_settle_enabled)
qed

lemma sample_ui_issues: "snd (analyze_begin sample_runtime sample_ui) \<noteq> None"
  by (simp add: analyze_begin_def sample_ui_def trim_def js_space_def Let_def)

text \<open>
  The theorem at the sample page, for a \<open>fetch\<close> that throws and for one that returns
  the relay's answer with an error found.
\<close>

theorem analyze_reenables_trigger_witness:
  "snd (analyze_begin sample_runtime sample_ui) \<noteq> None
   \<and> analyze_disabled (fst (analyze_begin sample_runtime sample_ui))
   \<and> \<not> analyze_disabled (analyze sample_runtime fetch_throws sample_ui)
   \<and> \<not> analyze_disabled
         (analyze sample_runtime (fetch_gives (reply_200 relay_error_body)) sample_ui)"
proof -
  have issued: "snd (analyze_begin sample_runtime sample_ui) =
                  Some (the (snd (analyze_begin sample_runtime sample_ui)))"
    using sample_ui_issues by simp
  show ?thesis
    using sample_ui_issues
      analyze_reenables_trigger [OF issued, of fetch_throws]
      analyze_reenables_trigger [OF issued, of "fetch_gives (reply_200 relay_error_body)"]
    by simp
qed

text \<open>
  \<open>showErrorDetails\<close> does not throw on an error detail whose \<open>type\<close>, \<open>reason\<close> and
  \<open>line\<close> are primitive, and it never touches the corrected-code panel. The details the
  relay sends are of that kind.
\<close>

lemma to_string_primitive: "primitive v \<Longrightarrow> \<exists>s. to_string rt v = Inr s"
  by (cases v) simp_all

lemma showErrorDetails_returns:
  assumes "primitive (get_prop error ''type'')" and "primitive (get_prop error ''reason'')"
    and "primitive (get_prop error ''line'')"
  shows "\<exists>u'. showErrorDetails rt error u = (u', None)"
proof -
  have "primitive (js_or (get_prop error ''type'') (JStr ''UnknownError''))"
    and "primitive (js_or (get_prop error ''reason'') (JStr ''Unknown''))"
    using assms(1,2) by (simp_all add: js_or_def)
  then obtain t r where
      t: "to_string rt (js_or (get_prop error ''type'') (JStr ''UnknownError'')) = Inr t"
    and r: "to_string rt (js_or (get_prop error ''reason'') (JStr ''Unknown'')) = Inr r"
    using to_string_primitive by blast
  obtain l where l: "to_string rt (get_prop error ''line'') = Inr l"
    using assms(3) to_string_primitive by blast
  show ?thesis
    by (simp add: showErrorDetails_def Let_def t r l)
qed

lemma showErrorDetails_frame:
  assumes "showErrorDetails rt error u = (u', thrown)"
  shows "corrected_code_hidden u' = corrected_code_hidden u
         \<and> fixed_content_text u' = fixed_content_text u"
  using assms
  by (auto simp: showErrorDetails_def Let_def split: sum.splits if_splits)

lemma relay_answer_primitive:
  "primitive (get_prop (get_prop (res_body (normalize parsed)) ''error'') ''type'')"
  "primitive (get_prop (get_prop (res_body (normalize parsed)) ''error'') ''reason'')"
  "primitive (get_prop (get_prop (res_body (normalize parsed)) ''error'') ''line'')"
proof -
  have str: "primitive (if typeof v = ''string'' then v else JStr d)" for v d
    by (cases v) simp_all
  have num: "primitive (if typeof v = ''number'' then v else JNull)" for v
    by (cases v) simp_all
  show "primitive (get_prop (get_prop (res_body (normalize parsed)) ''error'') ''type'')"
    "primitive (get_prop (get_prop (res_body (normalize parsed)) ''error'') ''reason'')"
    "primitive (get_prop (get_prop (res_body (normalize parsed)) ''error'') ''line'')"
    by (simp_all add: normalize_def json_def status_json_def Let_def str num)
qed

text \<open>
  Claim C8. When the relay's answer has a success status and a body that is JSON with
  \<open>hasError\<close> true and an error detail of the relay's kind (its \<open>type\<close>, \<open>reason\<close> and
  \<open>line\<close> are primitive, or it is missing), then after \<open>analyze\<close> the corrected-code
  panel is shown exactly when \<open>correctedCode\<close> is a string that is not empty after
  trimming, and it then holds that string; for every other \<open>correctedCode\<close> (missing,
  null, empty, white space only, or not a string) the panel is hidden, whatever it was
  before.
\<close>

theorem corrected_panel_iff_nonblank_string:
  assumes "ok resp" and "response_json rt resp = Inr data"
    and "get_prop data ''hasError'' = JBool True"
    and "primitive (get_prop (get_prop data ''error'') ''type'')"
    and "primitive (get_prop (get_prop data ''error'') ''reason'')"
    and "primitive (get_prop (get_prop data ''error'') ''line'')"
  shows "corrected_code_hidden (analyze_settle rt (Inr resp) u) =
           (\<not> (\<exists>s. get_prop data ''correctedCode'' = JStr s \<and> trim s \<noteq> []))
         \<and> (\<forall>s. get_prop data ''correctedCode'' = JStr s \<and> trim s \<noteq> [] \<longrightarrow>
               fixed_content_text (analyze_settle rt (Inr resp) u) = s)"
proof -
  let ?error = "js_or (get_prop data ''error'')
                  (JObj [(''type'', JStr ''UnknownError''),
                         (''reason'', JStr ''Unknown''),
                         (''line'', JNull)])"
  let ?u1 = "u\<lparr>results_html := errors_detected_html\<rparr>"
  from assms(3) have data: "truthy data" by (cases data) simp_all
  have "primitive (get_prop ?error ''type'')" and "primitive (get_prop ?error ''reason'')"
    and "primitive (get_prop ?error ''line'')"
    using assms(4-6) by (simp_all add: js_or_def)
  then obtain u2 where u2: "showErrorDetails rt ?error ?u1 = (u2, None)"
    using showErrorDetails_returns by blast
  have body: "analyze_try rt (Inr resp) u =
      (case showCorrectedCode rt (get_prop data ''correctedCode'') u2 of
         Inl e \<Rightarrow> (u2, Some e)
       | Inr u3 \<Rightarrow>
          (setStatus ''Analysis complete - errors found and fixes provided!'' 3000 u3, None))"
    using assms(1-3) data by (simp add: analyze_try_def Let_def u2)
  show ?thesis
    unfolding analyze_settle_def body
    by (cases "get_prop data ''correctedCode''")
       (auto simp: showCorrectedCode_def setStatus_def stopSpeaking_def trim_Nil Let_def)
qed

text \<open>
  The theorem at two answers of the relay: one with the corrected code \<open>print(1)\<close>, on a
  page whose panel is hidden, and one with the number 42 for \<open>correctedCode\<close>, on a page
  whose panel is shown.
\<close>

theorem corrected_panel_iff_nonblank_string_witness:
  "\<not> corrected_code_hidden
       (analyze_settle sample_runtime (Inr (reply_200 relay_error_body)) sample_ui)
   \<and> fixed_content_text
       (analyze_settle sample_runtime (Inr (reply_200 relay_error_body)) sample_ui) = ''print(1)''
   \<and> corrected_code_hidden
       (analyze_settle sample_runtime (Inr (reply_200 relay_bare_body))
          (sample_ui\<lparr>corrected_code_hidden := False\<rparr>))"
proof -
  let ?shown = "JObj [(''hasError'', JBool True),
                      (''error'', JObj [(''type'', JStr ''SyntaxError''),
                                        (''reason'', JStr ''Unknown''),
                                        (''line'', JNull)]),
                      (''correctedCode'', JStr ''print(1)'')]"
  let ?number = "JObj [(''hasError'', JBool True),
                       (''error'', JObj [(''type'', JStr ''UnknownError''),
                                         (''reason'', JStr ''Unknown''),
                                         (''line'', JNull)]),
                       (''correctedCode'', JNum (Fin 42))]"
  have nonblank: "trim ''print(1)'' \<noteq> []"
    by (simp add: trim_def js_space_def)
  have "response_json sample_runtime (reply_200 relay_error_body) = Inr ?shown"
    by (simp add: sample_response_json reply_fields sample_parse_table)
  from corrected_panel_iff_nonblank_string [OF reply_fields(1) this, of sample_ui]
  have shown: "\<not> corrected_code_hidden
       (analyze_settle sample_runtime (Inr (reply_200 relay_error_body)) sample_ui)
     \<and> fixed_content_text
       (analyze_settle sample_runtime (Inr (reply_200 relay_error_body)) sample_ui) = ''print(1)''"
    using nonblank by simp
  have "response_json sample_runtime (reply_200 relay_bare_body) = Inr ?number"
    by (simp add: sample_response_json reply_fields sample_parse_table)
  from corrected_panel_iff_nonblank_string [OF reply_fields(1) this,
      of "sample_ui\<lparr>corrected_code_hidden := False\<rparr>"]
  have "corrected_code_hidden
       (analyze_settle sample_runtime (Inr (reply_200 relay_bare_body))
          (sample_ui\<lparr>corrected_code_hidden := False\<rparr>))"
    by simp
  with shown show ?thesis by simp
qed

text \<open>
  On the second of these answers, which the relay sends when the model gives a number
  for \<open>correctedCode\<close> and no \<open>error\<close>, \<open>showCorrectedCode\<close> throws and the page ends on
  the connection-error panel.
\<close>

lemma client_on_forwarded_number:
  "results_html (analyze_settle sample_runtime (Inr (reply_200 relay_bare_body)) sample_ui) =
     connection_error_html ''code.trim is not a function''"
proof -
  have "response_json sample_runtime (reply_200 relay_bare_body) =
      Inr (JObj [(''hasError'', JBool True),
                 (''error'', JObj [(''type'', JStr ''UnknownError''),
                                   (''reason'', JStr ''Unknown''),
                                   (''line'', JNull)]),
                 (''correctedCode'', JNum (Fin 42))])"
    by (simp add: sample_response_json reply_fields sample_parse_table)
  moreover have "escapeHtml ''code.trim is not a function'' = ''code.trim is not a function''"
    by (simp add: escapeHtml_concat html_entity_def)
  ultimately show ?thesis
    by (simp add: analyze_settle_def analyze_try_def reply_fields showCorrectedCode_def
        showErrorDetails_def stopSpeaking_def sample_runtime_fields sample_not_a_function_def
        js_or_def Let_def)
qed

text \<open>
  Claim C9. \<open>escapeHtml\<close> replaces every occurrence of the five special characters by
  its entity and leaves every other character as it is; so its result holds none of
  \<open><\<close>, \<open>>\<close>, the double quote and the single quote, and every ampersand in it is the
  first character of one of the five entities. The client inserts the relay's error
  message and details into the page only through it: for an answer with a non-success
  status, the markup written is the rate-limit panel around the escaped message and the
  escaped details, or the failure panel around the escaped message; when the message or
  the details is not a string, \<open>escapeHtml\<close> throws before anything is written and the
  page shows the connection-error panel around the escaped text of that exception.
\<close>

theorem escapeHtml_entities_and_use:
  "escapeHtml s = concat (map html_entity s)
   \<and> (\<forall>x \<in> set (escapeHtml s).
         x \<noteq> CHR ''<'' \<and> x \<noteq> CHR ''>'' \<and> x \<noteq> CHR 0x22 \<and> x \<noteq> CHR 0x27)
   \<and> (\<forall>i < length (escapeHtml s). escapeHtml s ! i = CHR ''&'' \<longrightarrow>
         (\<exists>e \<in> set entities. take (length e) (drop i (escapeHtml s)) = e))
   \<and> (\<not> ok resp \<longrightarrow>
        results_html (analyze_settle rt (Inr resp) u) =
          (let data = (case response_json rt resp of Inl e \<Rightarrow> JNull | Inr v \<Rightarrow> v);
               msg = js_or (opt_prop data ''error'') (JStr ''Request failed'');
               details = js_or (opt_prop data ''details'') (JStr [])
           in
             if truthy (opt_prop data ''isRateLimit'') then
               (case msg of
                  JStr m \<Rightarrow>
                    (case details of
                       JStr d \<Rightarrow> rate_limit_html (escapeHtml m) (escapeHtml d)
                     | _ \<Rightarrow> connection_error_html (escapeHtml (not_a_function rt ''s.replaceAll'')))
                | _ \<Rightarrow> connection_error_html (escapeHtml (not_a_function rt ''s.replaceAll'')))
             else
               (case msg of
                  JStr m \<Rightarrow> analysis_failed_html (escapeHtml m)
                | _ \<Rightarrow> connection_error_html (escapeHtml (not_a_function rt ''s.replaceAll'')))))"
  using escapeHtml_concat [of s] escapeHtml_chars [of _ s] escapeHtml_amp [of _ s]
    failure_panel [of resp rt u]
  by blast

text \<open>
  The theorem at a text with all five special characters, and at a rate-limited answer
  of the relay whose message carries markup.
\<close>

theorem escapeHtml_entities_and_use_witness:
  "escapeHtml (''<a href=\"x\">'' @ [CHR 0x27] @ '' & '') =
     ''&lt;a href=&quot;x&quot;&gt;&#039; &amp; ''
   \<and> results_html
        (analyze_settle sample_runtime (Inr (reply_with 429 relay_limit_body)) sample_ui) =
      rate_limit_html ''Rate &lt;b&gt;limit&lt;/b&gt;'' ''20 &amp; more''"
proof -
  note use = escapeHtml_entities_and_use
    [of "''<a href=\"x\">'' @ [CHR 0x27] @ '' & ''" "reply_with 429 relay_limit_body"
      sample_runtime sample_ui]
  have plain: "escapeHtml (''<a href=\"x\">'' @ [CHR 0x27] @ '' & '') =
      ''&lt;a href=&quot;x&quot;&gt;&#039; &amp; ''"
    using use [THEN conjunct1] by (simp add: html_entity_def)
  have parsed: "response_json sample_runtime (reply_with 429 relay_limit_body) =
      Inr (JObj [(''error'', JStr ''Rate <b>limit</b>''),
                 (''details'', JStr ''20 & more''),
                 (''isRateLimit'', JBool True)])"
    by (simp add: sample_response_json reply_fields sample_parse_table)
  have escaped: "escapeHtml ''Rate <b>limit</b>'' = ''Rate &lt;b&gt;limit&lt;/b&gt;''"
    "escapeHtml ''20 & more'' = ''20 &amp; more''"
    by (simp_all add: escapeHtml_concat html_entity_def)
  have "results_html
        (analyze_settle sample_runtime (Inr (reply_with 429 relay_limit_body)) sample_ui) =
      rate_limit_html ''Rate &lt;b&gt;limit&lt;/b&gt;'' ''20 &amp; more''"
    using use [THEN conjunct2, THEN conjunct2, THEN conjunct2]
    by (simp add: reply_fields parsed opt_prop_def nullish_def js_or_def escaped)
  with plain show ?thesis by simp
qed

end
